theory Spec2Isabelle
  imports Complex_Main "HOL-Library.Word"
begin

section \<open>JavaScript strings and numbers\<close>

text \<open>
  A JavaScript string is a sequence of UTF-16 code units. Text the program spells out
  (enum values, header names, messages, URL parts) is written as an Isabelle string and
  embedded by \<open>js\<close>; every other string (a facet value, a header value, a query) is
  an arbitrary list of code units.
\<close>

type_synonym jsstring = "16 word list"

definition unit_of :: "char \<Rightarrow> 16 word" where
  "unit_of c = of_nat (of_char c)"

definition js :: "string \<Rightarrow> jsstring" where
  "js s = map unit_of s"

text \<open>
  The retry code computes with JavaScript numbers, where \<^verbatim>\<open>NaN\<close> and the two
  infinities are ordinary values: \<^verbatim>\<open>Number("soon")\<close> is \<^verbatim>\<open>NaN\<close>, and the default
  \<^verbatim>\<open>maxRetryAfter\<close> and \<^verbatim>\<open>backoffLimit\<close> are \<^verbatim>\<open>Number.POSITIVE_INFINITY\<close>. A finite
  number is modelled by the real it denotes; the rounding of IEEE doubles is not modelled.
\<close>

datatype number = NaN | NegInfinity | Finite real | Infinity

fun isNaN :: "number \<Rightarrow> bool" where
  "isNaN NaN = True"
| "isNaN x = False"

text \<open>\<^verbatim>\<open>x < y\<close>: false as soon as one side is \<^verbatim>\<open>NaN\<close>.\<close>

fun js_lt :: "number \<Rightarrow> number \<Rightarrow> bool" where
  "js_lt NaN y = False"
| "js_lt x NaN = False"
| "js_lt (Finite a) (Finite b) = (a < b)"
| "js_lt x NegInfinity = False"
| "js_lt NegInfinity y = True"
| "js_lt Infinity y = False"
| "js_lt x Infinity = True"

text \<open>\<^verbatim>\<open>x > y\<close> and \<^verbatim>\<open>x >= y\<close>.\<close>

definition js_gt :: "number \<Rightarrow> number \<Rightarrow> bool" where
  "js_gt x y = js_lt y x"

definition js_ge :: "number \<Rightarrow> number \<Rightarrow> bool" where
  "js_ge x y = (\<not> isNaN x \<and> \<not> isNaN y \<and> \<not> js_lt x y)"

text \<open>\<^verbatim>\<open>x * k\<close> for a positive finite constant \<open>k\<close> (the code multiplies by 1000).\<close>

fun js_times :: "number \<Rightarrow> real \<Rightarrow> number" where
  "js_times NaN k = NaN"
| "js_times NegInfinity k = NegInfinity"
| "js_times (Finite a) k = Finite (a * k)"
| "js_times Infinity k = Infinity"

text \<open>\<^verbatim>\<open>x - y\<close>.\<close>

fun js_minus :: "number \<Rightarrow> number \<Rightarrow> number" where
  "js_minus NaN y = NaN"
| "js_minus x NaN = NaN"
| "js_minus (Finite a) (Finite b) = Finite (a - b)"
| "js_minus Infinity Infinity = NaN"
| "js_minus NegInfinity NegInfinity = NaN"
| "js_minus Infinity y = Infinity"
| "js_minus NegInfinity y = NegInfinity"
| "js_minus (Finite a) Infinity = NegInfinity"
| "js_minus (Finite a) NegInfinity = Infinity"

text \<open>\<^verbatim>\<open>Math.min(x, y)\<close>: \<^verbatim>\<open>NaN\<close> as soon as one argument is.\<close>

definition Math_min :: "number \<Rightarrow> number \<Rightarrow> number" where
  "Math_min x y = (if isNaN x \<or> isNaN y then NaN else if js_lt y x then y else x)"

text \<open>\<^verbatim>\<open>a ?? b\<close>: the right operand only when the left one is null or undefined.\<close>

definition nullish :: "'a option \<Rightarrow> 'a option \<Rightarrow> 'a option" where
  "nullish a b = (case a of None \<Rightarrow> b | Some x \<Rightarrow> Some x)"

section \<open>JSON text of arrays of strings\<close>

text \<open>
  \<^verbatim>\<open>JSON.stringify\<close> and \<^verbatim>\<open>JSON.parse\<close> are builtins of the language; the program
  applies them to arrays of strings and arrays of arrays of strings only, and they are
  modelled on those, after ECMA-262 (\<^verbatim>\<open>QuoteJSONString\<close>, \<^verbatim>\<open>UnicodeEscape\<close>) and the
  JSON grammar. Code units are written in hexadecimal: \<open>0x22\<close> is the double quote,
  \<open>0x5C\<close> the backslash, \<open>0x5B\<close> and \<open>0x5D\<close> the brackets, \<open>0x2C\<close> the comma.
\<close>

definition is_high_surrogate :: "16 word \<Rightarrow> bool" where
  "is_high_surrogate c \<longleftrightarrow> 0xD800 \<le> c \<and> c \<le> 0xDBFF"

definition is_low_surrogate :: "16 word \<Rightarrow> bool" where
  "is_low_surrogate c \<longleftrightarrow> 0xDC00 \<le> c \<and> c \<le> 0xDFFF"

text \<open>A hexadecimal digit in lower case, and \<^verbatim>\<open>\uXXXX\<close> for a code unit.\<close>

definition hex_digit :: "nat \<Rightarrow> 16 word" where
  "hex_digit d = (if d < 10 then of_nat (48 + d) else of_nat (87 + d))"

definition UnicodeEscape :: "16 word \<Rightarrow> jsstring" where
  "UnicodeEscape c =
     (let n = unat c in
      [0x5C, 0x75, hex_digit (n div 4096), hex_digit (n div 256 mod 16),
       hex_digit (n div 16 mod 16), hex_digit (n mod 16)])"

text \<open>
  One code point that is a single code unit: the two-character escapes for backspace,
  tab, line feed, form feed, carriage return, the quote and the backslash; \<^verbatim>\<open>\uXXXX\<close>
  for the other control characters and for a surrogate that stands alone; itself
  otherwise.
\<close>

definition quote_unit :: "16 word \<Rightarrow> jsstring" where
  "quote_unit c =
     (if c = 0x08 then [0x5C, 0x62]
      else if c = 0x09 then [0x5C, 0x74]
      else if c = 0x0A then [0x5C, 0x6E]
      else if c = 0x0C then [0x5C, 0x66]
      else if c = 0x0D then [0x5C, 0x72]
      else if c = 0x22 then [0x5C, 0x22]
      else if c = 0x5C then [0x5C, 0x5C]
      else if c < 0x20 \<or> is_high_surrogate c \<or> is_low_surrogate c then UnicodeEscape c
      else [c])"

text \<open>A high surrogate followed by a low one is one code point and is copied.\<close>

fun quote_units :: "jsstring \<Rightarrow> jsstring" where
  "quote_units [] = []"
| "quote_units [c] = quote_unit c"
| "quote_units (c # d # cs) =
     (if is_high_surrogate c \<and> is_low_surrogate d then c # d # quote_units cs
      else quote_unit c @ quote_units (d # cs))"

definition QuoteJSONString :: "jsstring \<Rightarrow> jsstring" where
  "QuoteJSONString s = 0x22 # quote_units s @ [0x22]"

fun join_commas :: "jsstring list \<Rightarrow> jsstring" where
  "join_commas [] = []"
| "join_commas [x] = x"
| "join_commas (x # y # ys) = x @ 0x2C # join_commas (y # ys)"

text \<open>\<^verbatim>\<open>JSON.stringify(xs)\<close> for \<^verbatim>\<open>xs: string[]\<close> and for \<^verbatim>\<open>xs: string[][]\<close>.\<close>

definition JSON_stringify_strings :: "jsstring list \<Rightarrow> jsstring" where
  "JSON_stringify_strings xs = 0x5B # join_commas (map QuoteJSONString xs) @ [0x5D]"

definition JSON_stringify_arrays :: "jsstring list list \<Rightarrow> jsstring" where
  "JSON_stringify_arrays xss = 0x5B # join_commas (map JSON_stringify_strings xss) @ [0x5D]"

text \<open>
  \<^verbatim>\<open>JSON.parse\<close>, as far as the text is an array of arrays of strings: \<open>None\<close> for
  every other text, a syntax error or not. First the tokens (white space between them
  is skipped; inside a string every JSON escape is read and a raw control character is
  an error), then the two levels of arrays.
\<close>

datatype token = LBracket | RBracket | Comma | StringLit jsstring

definition hex_value :: "16 word \<Rightarrow> nat option" where
  "hex_value c =
     (let n = unat c in
      if 48 \<le> n \<and> n \<le> 57 then Some (n - 48)
      else if 97 \<le> n \<and> n \<le> 102 then Some (n - 87)
      else if 65 \<le> n \<and> n \<le> 70 then Some (n - 55)
      else None)"

definition hex4 :: "16 word \<Rightarrow> 16 word \<Rightarrow> 16 word \<Rightarrow> 16 word \<Rightarrow> 16 word option" where
  "hex4 a b c d =
     (case (hex_value a, hex_value b, hex_value c, hex_value d) of
        (Some x, Some y, Some z, Some w) \<Rightarrow> Some (of_nat (((x * 16 + y) * 16 + z) * 16 + w))
      | _ \<Rightarrow> None)"

fun lex :: "jsstring \<Rightarrow> token list option"
  and lex_string :: "jsstring \<Rightarrow> jsstring \<Rightarrow> token list option" where
  "lex [] = Some []"
| "lex (c # cs) =
     (if c = 0x20 \<or> c = 0x09 \<or> c = 0x0A \<or> c = 0x0D then lex cs
      else if c = 0x5B then map_option (Cons LBracket) (lex cs)
      else if c = 0x5D then map_option (Cons RBracket) (lex cs)
      else if c = 0x2C then map_option (Cons Comma) (lex cs)
      else if c = 0x22 then lex_string [] cs
      else None)"
| "lex_string acc [] = None"
| "lex_string acc (c # cs) =
     (if c = 0x22 then map_option (Cons (StringLit (rev acc))) (lex cs)
      else if c = 0x5C then
        (case cs of
           [] \<Rightarrow> None
         | e # cs' \<Rightarrow>
             if e = 0x22 then lex_string (0x22 # acc) cs'
             else if e = 0x5C then lex_string (0x5C # acc) cs'
             else if e = 0x2F then lex_string (0x2F # acc) cs'
             else if e = 0x62 then lex_string (0x08 # acc) cs'
             else if e = 0x66 then lex_string (0x0C # acc) cs'
             else if e = 0x6E then lex_string (0x0A # acc) cs'
             else if e = 0x72 then lex_string (0x0D # acc) cs'
             else if e = 0x74 then lex_string (0x09 # acc) cs'
             else if e = 0x75 then
               (case cs' of
                  h1 # h2 # h3 # h4 # cs'' \<Rightarrow>
                    (case hex4 h1 h2 h3 h4 of
                       None \<Rightarrow> None
                     | Some w \<Rightarrow> lex_string (w # acc) cs'')
                | _ \<Rightarrow> None)
             else None)
      else if c < 0x20 then None
      else lex_string (c # acc) cs)"

text \<open>The rest of an array of strings after an element, and a whole array.\<close>

fun parse_strings_tail :: "token list \<Rightarrow> (jsstring list \<times> token list) option" where
  "parse_strings_tail (RBracket # ts) = Some ([], ts)"
| "parse_strings_tail (Comma # StringLit s # ts) =
     (case parse_strings_tail ts of None \<Rightarrow> None | Some (xs, r) \<Rightarrow> Some (s # xs, r))"
| "parse_strings_tail ts = None"

fun parse_strings :: "token list \<Rightarrow> (jsstring list \<times> token list) option" where
  "parse_strings (LBracket # RBracket # ts) = Some ([], ts)"
| "parse_strings (LBracket # StringLit s # ts) =
     (case parse_strings_tail ts of None \<Rightarrow> None | Some (xs, r) \<Rightarrow> Some (s # xs, r))"
| "parse_strings ts = None"

text \<open>
  The rest of the outer array after an element. The fuel bounds the number of
  elements still to read; the number of tokens left is always enough.
\<close>

fun parse_arrays_tail :: "nat \<Rightarrow> token list \<Rightarrow> (jsstring list list \<times> token list) option" where
  "parse_arrays_tail fuel (RBracket # ts) = Some ([], ts)"
| "parse_arrays_tail (Suc fuel) (Comma # ts) =
     (case parse_strings ts of
        None \<Rightarrow> None
      | Some (xs, r) \<Rightarrow>
          (case parse_arrays_tail fuel r of
             None \<Rightarrow> None
           | Some (xss, r') \<Rightarrow> Some (xs # xss, r')))"
| "parse_arrays_tail fuel ts = None"

definition parse_arrays :: "token list \<Rightarrow> (jsstring list list \<times> token list) option" where
  "parse_arrays ts =
     (case ts of
        LBracket # RBracket # r \<Rightarrow> Some ([], r)
      | LBracket # r \<Rightarrow>
          (case parse_strings r of
             None \<Rightarrow> None
           | Some (xs, r') \<Rightarrow>
               (case parse_arrays_tail (length r') r' of
                  None \<Rightarrow> None
                | Some (xss, r'') \<Rightarrow> Some (xs # xss, r'')))
      | _ \<Rightarrow> None)"

definition JSON_parse_arrays :: "jsstring \<Rightarrow> jsstring list list option" where
  "JSON_parse_arrays text =
     (case lex text of
        None \<Rightarrow> None
      | Some ts \<Rightarrow>
          (case parse_arrays ts of
             Some (xss, []) \<Rightarrow> Some xss
           | _ \<Rightarrow> None))"

text \<open>
  The tokens of the texts \<open>JSON_stringify_strings\<close> and \<open>JSON_stringify_arrays\<close>
  write: what the proofs below show the lexer to read back from them.
\<close>

definition more_strings :: "jsstring list \<Rightarrow> token list" where
  "more_strings ys = concat (map (\<lambda>y. [Comma, StringLit y]) ys)"

fun array_tokens :: "jsstring list \<Rightarrow> token list" where
  "array_tokens [] = [LBracket, RBracket]"
| "array_tokens (x # ys) = LBracket # StringLit x # more_strings ys @ [RBracket]"

definition more_arrays :: "jsstring list list \<Rightarrow> token list" where
  "more_arrays yss = concat (map (\<lambda>ys. Comma # array_tokens ys) yss)"

fun arrays_tokens :: "jsstring list list \<Rightarrow> token list" where
  "arrays_tokens [] = [LBracket, RBracket]"
| "arrays_tokens (xs # yss) = LBracket # array_tokens xs @ more_arrays yss @ [RBracket]"

section \<open>The request core (the bundled ky)\<close>

text \<open>
  \<^verbatim>\<open>String.prototype.toLowerCase\<close> on the letters A to Z; request methods and
  header names are HTTP tokens, so no other letter occurs.
\<close>

definition toLowerCase :: "jsstring \<Rightarrow> jsstring" where
  "toLowerCase s = map (\<lambda>c. if 65 \<le> c \<and> c \<le> 90 then c + 32 else c) s"

text \<open>
  A \<^verbatim>\<open>Headers\<close> object keeps its names in lower case, and \<^verbatim>\<open>get\<close> lowers the name
  it is asked for; \<^verbatim>\<open>null\<close> (\<open>None\<close>) for an absent header.
\<close>

record http_response =
  status :: nat
  headers :: "(jsstring \<times> jsstring) list"

definition Headers_get :: "(jsstring \<times> jsstring) list \<Rightarrow> jsstring \<Rightarrow> jsstring option" where
  "Headers_get hs header_name = map_of hs (toLowerCase header_name)"

text \<open>
  What one attempt can throw: \<^verbatim>\<open>TimeoutError\<close>, \<^verbatim>\<open>HTTPError\<close> (carrying the
  response) or anything else the fetch rejects with, of which only the properties
  \<^verbatim>\<open>name\<close> and \<^verbatim>\<open>code\<close> are ever read.
\<close>

datatype error =
    TimeoutError
  | HTTPError http_response
  | OtherError "jsstring option" "jsstring option"

text \<open>\<^verbatim>\<open>error instanceof TimeoutError\<close>.\<close>

fun instanceof_TimeoutError :: "error \<Rightarrow> bool" where
  "instanceof_TimeoutError TimeoutError = True"
| "instanceof_TimeoutError e = False"

text \<open>
  The builtins the delay computation calls and the program does not define:
  \<^verbatim>\<open>Number(s)\<close>, \<^verbatim>\<open>Date.parse(s)\<close> and \<^verbatim>\<open>Date.now()\<close>. They are parameters of the
  model. The clock is indexed by the retry count at which it is read.
\<close>

record js_env =
  Number :: "jsstring \<Rightarrow> number"
  Date_parse :: "jsstring \<Rightarrow> number"
  Date_now :: "nat \<Rightarrow> real"

record retry_options =
  limit :: number
  methods :: "jsstring list"
  statusCodes :: "nat list"
  afterStatusCodes :: "nat list"
  maxRetryAfter :: "number option"
  backoffLimit :: number
  delay :: "nat \<Rightarrow> number"

definition retryMethods :: "jsstring list" where
  "retryMethods = map js [''get'', ''put'', ''head'', ''delete'', ''options'', ''trace'']"

definition retryStatusCodes :: "nat list" where
  "retryStatusCodes = [408, 413, 429, 500, 502, 503, 504]"

definition retryAfterStatusCodes :: "nat list" where
  "retryAfterStatusCodes = [413, 429, 503]"

text \<open>
  \<^verbatim>\<open>delay: (attemptCount) => 0.3 * 2 ** (attemptCount - 1) * 1000\<close>; the count is at
  least 1 wherever the code calls it.
\<close>

definition defaultRetryOptions :: retry_options where
  "defaultRetryOptions =
     \<lparr> limit = Finite 2,
       methods = retryMethods,
       statusCodes = retryStatusCodes,
       afterStatusCodes = retryAfterStatusCodes,
       maxRetryAfter = Some Infinity,
       backoffLimit = Infinity,
       delay = (\<lambda>attemptCount.
          Finite (0.3 * (if attemptCount = 0 then 1 / 2 else 2 ^ (attemptCount - 1)) * 1000)) \<rparr>"

definition maxSafeTimeout :: real where
  "maxSafeTimeout = 2147483647"

text \<open>
  The local \<^verbatim>\<open>retryAfter\<close>: the first of the four headers that is present.
\<close>

definition retryAfter_header :: "http_response \<Rightarrow> jsstring option" where
  "retryAfter_header resp =
     nullish (Headers_get (headers resp) (js ''Retry-After''))
       (nullish (Headers_get (headers resp) (js ''RateLimit-Reset''))
          (nullish (Headers_get (headers resp) (js ''X-RateLimit-Reset''))
             (Headers_get (headers resp) (js ''X-Rate-Limit-Reset''))))"

text \<open>
  \<^verbatim>\<open>Ky._calculateRetryDelay(error)\<close>. It increments \<^verbatim>\<open>this._retryCount\<close> first, then
  either throws the error back (\<open>Inl\<close>) or returns the wait in milliseconds (\<open>Inr\<close>);
  the model returns the new count beside the result. An empty string is falsy in
  \<^verbatim>\<open>retryAfter && ...\<close>.
\<close>

definition calculateRetryDelay ::
  "js_env \<Rightarrow> retry_options \<Rightarrow> nat \<Rightarrow> error \<Rightarrow> (error + number) \<times> nat" where
  "calculateRetryDelay env opts retryCount err =
     (let retryCount' = retryCount + 1;
          backoff = Inr (Math_min (backoffLimit opts) (delay opts retryCount'))
      in
      (if js_gt (Finite (real retryCount')) (limit opts) \<or> instanceof_TimeoutError err then Inl err
       else
         (case err of
            HTTPError resp \<Rightarrow>
              if status resp \<notin> set (statusCodes opts) then Inl err
              else
                (let retryAfter = retryAfter_header resp in
                 (case retryAfter of
                    Some h \<Rightarrow>
                      if h \<noteq> [] \<and> status resp \<in> set (afterStatusCodes opts) then
                        (let after0 = js_times (Number env h) 1000;
                             after =
                               (if isNaN after0 then
                                  js_minus (Date_parse env h) (Finite (Date_now env retryCount'))
                                else if js_ge after0 (Date_parse env (js ''2024-01-01'')) then
                                  js_minus after0 (Finite (Date_now env retryCount'))
                                else after0);
                             max = (case maxRetryAfter opts of None \<Rightarrow> after | Some m \<Rightarrow> m)
                         in Inr (if js_lt after max then after else max))
                      else if status resp = 413 then Inl err
                      else backoff
                  | None \<Rightarrow> if status resp = 413 then Inl err else backoff))
          | _ \<Rightarrow> backoff),
       retryCount'))"

text \<open>
  The wait as the specification words it, to be compared with the code's: the header
  value taken as a number of seconds (times 1000) when it parses as a number, and as
  an epoch timestamp, less the clock, when that value reaches the threshold date; the
  value parsed as a date, less the clock, otherwise; the result clamped to the
  configured maximum.
\<close>

definition spec_retry_wait :: "js_env \<Rightarrow> number option \<Rightarrow> real \<Rightarrow> jsstring \<Rightarrow> number" where
  "spec_retry_wait env max_wait now h =
     (let seconds = Number env h;
          wait =
            (if \<not> isNaN seconds then
               (if js_ge (js_times seconds 1000) (Date_parse env (js ''2024-01-01''))
                then js_minus (js_times seconds 1000) (Finite now)
                else js_times seconds 1000)
             else js_minus (Date_parse env h) (Finite now))
      in case max_wait of None \<Rightarrow> wait | Some m \<Rightarrow> if js_lt wait m then wait else m)"

text \<open>
  An environment for the concrete cases below. It answers as JavaScript does on the
  strings given to it there: \<^verbatim>\<open>Number("1")\<close> is 1, \<^verbatim>\<open>Number("")\<close> is 0,
  \<^verbatim>\<open>Date.parse("2024-01-01")\<close> is 1704067200000; the clock stands at the first
  millisecond of 2026.
\<close>

definition sample_env :: js_env where
  "sample_env =
     \<lparr> Number = (\<lambda>s. if s = [] then Finite 0 else if s = js ''1'' then Finite 1 else NaN),
       Date_parse = (\<lambda>s. if s = js ''2024-01-01'' then Finite 1704067200000 else NaN),
       Date_now = (\<lambda>n. 1767225600000) \<rparr>"

text \<open>
  One call of \<^verbatim>\<open>function_\<close> (one attempt) either resolves with a response or rejects.
  A run of the retry loop is described against the outcomes of the successive attempts;
  \<open>Pending\<close> is the loop asking for an attempt the list does not describe.
\<close>

datatype 'a outcome = Resolved 'a | Rejected error

datatype 'a trace = Returned 'a | Thrown error | Sleep number "'a trace" | Pending

text \<open>
  \<^verbatim>\<open>Ky._retry(function_)\<close>. No request of this library passes hooks or a signal of its
  own, so \<^verbatim>\<open>beforeRetry\<close> is empty and \<^verbatim>\<open>delay\<close> is not aborted.
\<close>

fun retry :: "js_env \<Rightarrow> retry_options \<Rightarrow> nat \<Rightarrow> 'a outcome list \<Rightarrow> 'a trace" where
  "retry env opts retryCount [] = Pending"
| "retry env opts retryCount (Resolved v # rest) = Returned v"
| "retry env opts retryCount (Rejected err # rest) =
     (case calculateRetryDelay env opts retryCount err of
        (Inl e, retryCount') \<Rightarrow> Thrown e
      | (Inr d, retryCount') \<Rightarrow>
          (let ms = Math_min d (Finite maxSafeTimeout) in
           if retryCount' < 1 then Thrown err
           else Sleep ms (retry env opts retryCount' rest)))"

text \<open>How a run settles once its sleeps are over, and the sleeps it takes.\<close>

fun settled :: "'a trace \<Rightarrow> 'a trace" where
  "settled (Sleep ms t) = settled t"
| "settled t = t"

fun sleeps :: "'a trace \<Rightarrow> number list" where
  "sleeps (Sleep ms t) = ms # sleeps t"
| "sleeps t = []"

text \<open>The attempt without the retry loop: \<^verbatim>\<open>function_()\<close> awaited once.\<close>

fun once :: "'a outcome list \<Rightarrow> 'a trace" where
  "once [] = Pending"
| "once (Resolved v # rest) = Returned v"
| "once (Rejected err # rest) = Thrown err"

text \<open>
  \<^verbatim>\<open>Ky.create\<close>: \<^verbatim>\<open>isRetriableMethod ? ky._retry(function_) : function_()\<close>, where the
  method is compared in lower case.
\<close>

definition Ky_create ::
  "js_env \<Rightarrow> retry_options \<Rightarrow> jsstring \<Rightarrow> 'a outcome list \<Rightarrow> 'a trace" where
  "Ky_create env opts request_method attempts =
     (if toLowerCase request_method \<in> set (methods opts) then retry env opts 0 attempts
      else once attempts)"

text \<open>
  The options a caller hands to \<^verbatim>\<open>ky.get\<close> or \<^verbatim>\<open>ky.post\<close>, as far as this library
  and the \<^verbatim>\<open>Ky\<close> constructor read them. An absent key is \<open>None\<close>. \<^verbatim>\<open>timeout\<close> is a
  number of milliseconds or \<^verbatim>\<open>false\<close>. No caller in this library passes \<^verbatim>\<open>retry\<close>,
  \<^verbatim>\<open>hooks\<close> or \<^verbatim>\<open>signal\<close>, so \<^verbatim>\<open>normalizeRetryOptions(undefined)\<close> is
  \<open>defaultRetryOptions\<close>.
\<close>

datatype param = PString jsstring | PNumber number | PBoolean bool | PArray "jsstring list"

datatype timeout_setting = TimeoutMs number | TimeoutOff

record request_options =
  searchParams :: "(jsstring \<times> param) list option"
  request_headers :: "(jsstring \<times> jsstring) list"
  json :: "jsstring option"
  timeout :: "timeout_setting option"

record Ky_options =
  ky_method :: jsstring
  ky_retry :: retry_options
  ky_timeout :: timeout_setting

text \<open>
  The \<^verbatim>\<open>Ky\<close> constructor: \<^verbatim>\<open>retry: normalizeRetryOptions(options.retry)\<close> and
  \<^verbatim>\<open>timeout: options.timeout ?? 1e4\<close>. The method is the one \<^verbatim>\<open>createInstance\<close>
  merged in, already in upper case.
\<close>

definition Ky_constructor :: "jsstring \<Rightarrow> request_options \<Rightarrow> Ky_options" where
  "Ky_constructor request_method options =
     \<lparr> ky_method = request_method,
       ky_retry = defaultRetryOptions,
       ky_timeout = (case timeout options of None \<Rightarrow> TimeoutMs (Finite 10000) | Some t \<Rightarrow> t) \<rparr>"

text \<open>
  \<^verbatim>\<open>Ky._fetch\<close>: the timer of one attempt. With \<^verbatim>\<open>timeout === false\<close> the fetch runs
  without a timer (\<open>None\<close>); otherwise \<^verbatim>\<open>setTimeout(..., options.timeout)\<close> rejects the
  attempt with a \<^verbatim>\<open>TimeoutError\<close>.
\<close>

definition attempt_timer :: "Ky_options \<Rightarrow> number option" where
  "attempt_timer ky = (case ky_timeout ky of TimeoutOff \<Rightarrow> None | TimeoutMs ms \<Rightarrow> Some ms)"

section \<open>BaseAPIClient\<close>

text \<open>\<^verbatim>\<open>a || b\<close> on an optional string: \<^verbatim>\<open>undefined\<close> and the empty string are falsy.\<close>

definition or_else :: "jsstring option \<Rightarrow> jsstring \<Rightarrow> jsstring" where
  "or_else a b = (case a of None \<Rightarrow> b | Some x \<Rightarrow> if x = [] then b else x)"

record BaseAPIClient =
  baseUrl :: jsstring
  userAgent :: jsstring

definition BaseAPIClient_constructor :: "jsstring \<Rightarrow> jsstring option \<Rightarrow> BaseAPIClient" where
  "BaseAPIClient_constructor url agent =
     \<lparr> baseUrl = url, userAgent = or_else agent (js ''shulkers/1.0.0'') \<rparr>"

text \<open>
  \<^verbatim>\<open>buildSearchParams\<close>: an entry whose value is \<^verbatim>\<open>undefined\<close> is not in the list to
  begin with; an array becomes its JSON text; every other value is kept.
\<close>

definition searchParam_value :: "param \<Rightarrow> param" where
  "searchParam_value v = (case v of PArray xs \<Rightarrow> PString (JSON_stringify_strings xs) | _ \<Rightarrow> v)"

definition buildSearchParams :: "(jsstring \<times> param) list \<Rightarrow> (jsstring \<times> param) list" where
  "buildSearchParams params = map (\<lambda>(k, v). (k, searchParam_value v)) params"

definition getHeaders :: "BaseAPIClient \<Rightarrow> (jsstring \<times> jsstring) list" where
  "getHeaders client = [(js ''User-Agent'', userAgent client)]"

text \<open>
  The options \<^verbatim>\<open>makeRequest\<close>, \<^verbatim>\<open>makePostRequest\<close> and \<^verbatim>\<open>makeRawRequest\<close> pass to
  \<^verbatim>\<open>ky\<close>. None of them sets \<^verbatim>\<open>timeout\<close>.
\<close>

definition makeRequest_options ::
  "BaseAPIClient \<Rightarrow> (jsstring \<times> param) list option \<Rightarrow> request_options" where
  "makeRequest_options client params =
     \<lparr> searchParams = map_option buildSearchParams params,
       request_headers = getHeaders client,
       json = None,
       timeout = None \<rparr>"

definition makePostRequest_options ::
  "BaseAPIClient \<Rightarrow> jsstring \<Rightarrow> (jsstring \<times> param) list option \<Rightarrow> request_options" where
  "makePostRequest_options client body params =
     \<lparr> searchParams = map_option buildSearchParams params,
       request_headers = getHeaders client,
       json = Some body,
       timeout = None \<rparr>"

definition makeRawRequest_options :: "BaseAPIClient \<Rightarrow> request_options" where
  "makeRawRequest_options client =
     \<lparr> searchParams = None,
       request_headers = getHeaders client,
       json = None,
       timeout = None \<rparr>"

section \<open>The error mappers\<close>

text \<open>
  The three \<^verbatim>\<open>handleError\<close> methods take \<^verbatim>\<open>error: any\<close> and read exactly three
  properties of it: \<^verbatim>\<open>error.response\<close> (with \<^verbatim>\<open>error.response.status\<close>),
  \<^verbatim>\<open>error.name\<close> and \<^verbatim>\<open>error.code\<close>. A caught value is modelled by those
  properties; an absent one is \<open>None\<close>.
\<close>

record thrown =
  response :: "http_response option"
  name :: "jsstring option"
  code :: "jsstring option"

text \<open>What the mappers see of an error of the request core.\<close>

fun as_thrown :: "error \<Rightarrow> thrown" where
  "as_thrown TimeoutError = \<lparr> response = None, name = Some (js ''TimeoutError''), code = None \<rparr>"
| "as_thrown (HTTPError r) = \<lparr> response = Some r, name = Some (js ''HTTPError''), code = None \<rparr>"
| "as_thrown (OtherError n c) = \<lparr> response = None, name = n, code = c \<rparr>"

text \<open>
  Each mapper never returns: the model returns the error it throws. The first block
  throws for a response whose status is at least 400 and falls through otherwise
  (\<open>None\<close>). The last argument of the error constructors is the object the code
  builds: \<^verbatim>\<open>{ status, <service>Error: error }\<close>, without \<^verbatim>\<open>status\<close> on the two last
  paths, or the details of an external Spiget resource.
\<close>

subsection \<open>Spiget\<close>

datatype SpigetErrorCode =
    Spiget_EXTERNAL_FILE_DOWNLOAD
  | Spiget_RESOURCE_NOT_FOUND
  | Spiget_INVALID_SEARCH_PARAMETERS
  | Spiget_API_REQUEST_FAILED
  | Spiget_NETWORK_ERROR
  | Spiget_INVALID_RESPONSE
  | Spiget_RATE_LIMIT_EXCEEDED
  | Spiget_UNAUTHORIZED
  | Spiget_INVALID_VERSION
  | Spiget_DOWNLOAD_FAILED

datatype SpigetDetails =
    SpigetMapped "nat option" thrown
  | SpigetExternal int jsstring

datatype SpigetError = SpigetError SpigetErrorCode jsstring SpigetDetails

fun spiget_code :: "SpigetError \<Rightarrow> SpigetErrorCode" where
  "spiget_code (SpigetError c m d) = c"

fun spiget_message :: "SpigetError \<Rightarrow> jsstring" where
  "spiget_message (SpigetError c m d) = m"

fun spiget_details :: "SpigetError \<Rightarrow> SpigetDetails" where
  "spiget_details (SpigetError c m d) = d"

definition Spiget_handleError_response :: "thrown \<Rightarrow> SpigetError option" where
  "Spiget_handleError_response err =
     (case response err of
        None \<Rightarrow> None
      | Some r \<Rightarrow>
          (let st = status r in
           if st = 404 then
             Some (SpigetError Spiget_RESOURCE_NOT_FOUND (js ''Resource not found'')
                     (SpigetMapped (Some st) err))
           else if st = 401 then
             Some (SpigetError Spiget_UNAUTHORIZED (js ''Unauthorized access'')
                     (SpigetMapped (Some st) err))
           else if st = 429 then
             Some (SpigetError Spiget_RATE_LIMIT_EXCEEDED (js ''Rate limit exceeded'')
                     (SpigetMapped (Some st) err))
           else if st \<ge> 400 \<and> st < 500 then
             Some (SpigetError Spiget_INVALID_SEARCH_PARAMETERS (js ''Invalid request parameters'')
                     (SpigetMapped (Some st) err))
           else if st \<ge> 500 then
             Some (SpigetError Spiget_API_REQUEST_FAILED (js ''Server error'')
                     (SpigetMapped (Some st) err))
           else None))"

definition Spiget_handleError :: "thrown \<Rightarrow> SpigetErrorCode \<Rightarrow> jsstring \<Rightarrow> SpigetError" where
  "Spiget_handleError err defaultCode defaultMessage =
     (case Spiget_handleError_response err of
        Some e \<Rightarrow> e
      | None \<Rightarrow>
          if name err = Some (js ''NetworkError'') \<or> code err = Some (js ''ECONNRESET'')
               \<or> code err = Some (js ''ENOTFOUND'') then
            SpigetError Spiget_NETWORK_ERROR (js ''Network error occurred'') (SpigetMapped None err)
          else SpigetError defaultCode defaultMessage (SpigetMapped None err))"

subsection \<open>Modrinth\<close>

datatype ModrinthErrorCode =
    Modrinth_RESOURCE_NOT_FOUND
  | Modrinth_INVALID_SEARCH_PARAMETERS
  | Modrinth_API_REQUEST_FAILED
  | Modrinth_NETWORK_ERROR
  | Modrinth_INVALID_RESPONSE
  | Modrinth_RATE_LIMIT_EXCEEDED
  | Modrinth_UNAUTHORIZED
  | Modrinth_INVALID_VERSION
  | Modrinth_DOWNLOAD_FAILED
  | Modrinth_EXTERNAL_FILE_DOWNLOAD

datatype ModrinthError = ModrinthError ModrinthErrorCode jsstring "nat option" thrown

fun modrinth_code :: "ModrinthError \<Rightarrow> ModrinthErrorCode" where
  "modrinth_code (ModrinthError c m st e) = c"

fun modrinth_message :: "ModrinthError \<Rightarrow> jsstring" where
  "modrinth_message (ModrinthError c m st e) = m"

definition Modrinth_handleError_response :: "thrown \<Rightarrow> ModrinthError option" where
  "Modrinth_handleError_response err =
     (case response err of
        None \<Rightarrow> None
      | Some r \<Rightarrow>
          (let st = status r in
           if st = 404 then
             Some (ModrinthError Modrinth_RESOURCE_NOT_FOUND (js ''Resource not found'')
                     (Some st) err)
           else if st = 401 then
             Some (ModrinthError Modrinth_UNAUTHORIZED (js ''Unauthorized access'') (Some st) err)
           else if st = 429 then
             Some (ModrinthError Modrinth_RATE_LIMIT_EXCEEDED (js ''Rate limit exceeded'')
                     (Some st) err)
           else if st \<ge> 400 \<and> st < 500 then
             Some (ModrinthError Modrinth_INVALID_SEARCH_PARAMETERS
                     (js ''Invalid request parameters'') (Some st) err)
           else if st \<ge> 500 then
             Some (ModrinthError Modrinth_API_REQUEST_FAILED (js ''Server error'') (Some st) err)
           else None))"

definition Modrinth_handleError ::
  "thrown \<Rightarrow> ModrinthErrorCode \<Rightarrow> jsstring \<Rightarrow> ModrinthError" where
  "Modrinth_handleError err defaultCode defaultMessage =
     (case Modrinth_handleError_response err of
        Some e \<Rightarrow> e
      | None \<Rightarrow>
          if name err = Some (js ''NetworkError'') \<or> code err = Some (js ''ECONNRESET'')
               \<or> code err = Some (js ''ENOTFOUND'') then
            ModrinthError Modrinth_NETWORK_ERROR (js ''Network error occurred'') None err
          else ModrinthError defaultCode defaultMessage None err)"

subsection \<open>Hangar\<close>

datatype HangarErrorCode =
    Hangar_API_REQUEST_FAILED
  | Hangar_RESOURCE_NOT_FOUND
  | Hangar_UNAUTHORIZED
  | Hangar_RATE_LIMIT_EXCEEDED
  | Hangar_INVALID_SEARCH_PARAMETERS
  | Hangar_NETWORK_ERROR
  | Hangar_DOWNLOAD_FAILED
  | Hangar_VALIDATION_ERROR

datatype HangarError = HangarError HangarErrorCode jsstring "nat option" thrown

fun hangar_code :: "HangarError \<Rightarrow> HangarErrorCode" where
  "hangar_code (HangarError c m st e) = c"

fun hangar_message :: "HangarError \<Rightarrow> jsstring" where
  "hangar_message (HangarError c m st e) = m"

definition Hangar_handleError_response :: "thrown \<Rightarrow> HangarError option" where
  "Hangar_handleError_response err =
     (case response err of
        None \<Rightarrow> None
      | Some r \<Rightarrow>
          (let st = status r in
           if st = 404 then
             Some (HangarError Hangar_RESOURCE_NOT_FOUND (js ''Resource not found'') (Some st) err)
           else if st = 401 \<or> st = 403 then
             Some (HangarError Hangar_UNAUTHORIZED
                     (js ''Unauthorized access - this endpoint may require authentication'')
                     (Some st) err)
           else if st = 429 then
             Some (HangarError Hangar_RATE_LIMIT_EXCEEDED (js ''Rate limit exceeded'') (Some st) err)
           else if st = 422 then
             Some (HangarError Hangar_VALIDATION_ERROR
                     (js ''Validation error - check your request parameters'') (Some st) err)
           else if st \<ge> 400 \<and> st < 500 then
             Some (HangarError Hangar_INVALID_SEARCH_PARAMETERS
                     (js ''Invalid request parameters'') (Some st) err)
           else if st \<ge> 500 then
             Some (HangarError Hangar_API_REQUEST_FAILED (js ''Server error'') (Some st) err)
           else None))"

definition Hangar_handleError :: "thrown \<Rightarrow> HangarErrorCode \<Rightarrow> jsstring \<Rightarrow> HangarError" where
  "Hangar_handleError err defaultCode defaultMessage =
     (case Hangar_handleError_response err of
        Some e \<Rightarrow> e
      | None \<Rightarrow>
          if name err = Some (js ''NetworkError'') \<or> code err = Some (js ''ECONNRESET'')
               \<or> code err = Some (js ''ENOTFOUND'') then
            HangarError Hangar_NETWORK_ERROR (js ''Network error occurred'') None err
          else HangarError defaultCode defaultMessage None err)"

section \<open>Modrinth facets\<close>

datatype ModrinthFacetType =
    PROJECT_TYPE
  | CATEGORIES
  | VERSIONS
  | CLIENT_SIDE
  | SERVER_SIDE
  | OPEN_SOURCE
  | TITLE
  | AUTHOR
  | FOLLOWS
  | PROJECT_ID
  | LICENSE
  | DOWNLOADS
  | COLOR
  | CREATED_TIMESTAMP
  | MODIFIED_TIMESTAMP

fun ModrinthFacetType_string :: "ModrinthFacetType \<Rightarrow> jsstring" where
  "ModrinthFacetType_string PROJECT_TYPE = js ''project_type''"
| "ModrinthFacetType_string CATEGORIES = js ''categories''"
| "ModrinthFacetType_string VERSIONS = js ''versions''"
| "ModrinthFacetType_string CLIENT_SIDE = js ''client_side''"
| "ModrinthFacetType_string SERVER_SIDE = js ''server_side''"
| "ModrinthFacetType_string OPEN_SOURCE = js ''open_source''"
| "ModrinthFacetType_string TITLE = js ''title''"
| "ModrinthFacetType_string AUTHOR = js ''author''"
| "ModrinthFacetType_string FOLLOWS = js ''follows''"
| "ModrinthFacetType_string PROJECT_ID = js ''project_id''"
| "ModrinthFacetType_string LICENSE = js ''license''"
| "ModrinthFacetType_string DOWNLOADS = js ''downloads''"
| "ModrinthFacetType_string COLOR = js ''color''"
| "ModrinthFacetType_string CREATED_TIMESTAMP = js ''created_timestamp''"
| "ModrinthFacetType_string MODIFIED_TIMESTAMP = js ''modified_timestamp''"

datatype ModrinthFacetOperation =
    EQUAL
  | NOT_EQUAL
  | GREATER_THAN
  | GREATER_THAN_OR_EQUAL
  | LESS_THAN
  | LESS_THAN_OR_EQUAL

fun ModrinthFacetOperation_string :: "ModrinthFacetOperation \<Rightarrow> jsstring" where
  "ModrinthFacetOperation_string EQUAL = js '':''"
| "ModrinthFacetOperation_string NOT_EQUAL = js ''!=''"
| "ModrinthFacetOperation_string GREATER_THAN = js ''>''"
| "ModrinthFacetOperation_string GREATER_THAN_OR_EQUAL = js ''>=''"
| "ModrinthFacetOperation_string LESS_THAN = js ''<''"
| "ModrinthFacetOperation_string LESS_THAN_OR_EQUAL = js ''<=''"

text \<open>
  A facet's value is \<^verbatim>\<open>string | number | boolean\<close>. The model covers the numbers
  that are integers of magnitude below \<open>10\<^sup>2\<^sup>1\<close> (follows, downloads, colours,
  timestamps, resource ids), which a template literal prints in plain decimal digits
  as \<open>Number_toString\<close> does. From \<open>10\<^sup>2\<^sup>1\<close> on JavaScript prints an exponent, and
  it prints fractions and \<^verbatim>\<open>NaN\<close> in forms of their own: those values are outside
  the model, and \<open>Number_toString\<close> says nothing about them.
\<close>

datatype facet_value = VString jsstring | VNumber int | VBoolean bool

fun digits :: "nat \<Rightarrow> jsstring" where
  "digits n = (if n < 10 then [of_nat (48 + n)] else digits (n div 10) @ [of_nat (48 + n mod 10)])"

declare digits.simps [simp del]

definition Number_toString :: "int \<Rightarrow> jsstring" where
  "Number_toString n = (if n < 0 then 0x2D # digits (nat (- n)) else digits (nat n))"

fun facet_value_string :: "facet_value \<Rightarrow> jsstring" where
  "facet_value_string (VString s) = s"
| "facet_value_string (VNumber n) = Number_toString n"
| "facet_value_string (VBoolean b) = (if b then js ''true'' else js ''false'')"

text \<open>\<^verbatim>\<open>new ModrinthFacet(type, operation, value)\<close> and its \<^verbatim>\<open>toString()\<close>.\<close>

datatype ModrinthFacet = ModrinthFacet ModrinthFacetType ModrinthFacetOperation facet_value

fun Facet_toString :: "ModrinthFacet \<Rightarrow> jsstring" where
  "Facet_toString (ModrinthFacet t operation v) =
     ModrinthFacetType_string t @ ModrinthFacetOperation_string operation @ facet_value_string v"

definition Facet_projectType :: "jsstring \<Rightarrow> ModrinthFacet" where
  "Facet_projectType v = ModrinthFacet PROJECT_TYPE EQUAL (VString v)"

definition Facet_categories :: "jsstring \<Rightarrow> ModrinthFacet" where
  "Facet_categories v = ModrinthFacet CATEGORIES EQUAL (VString v)"

definition Facet_versions :: "jsstring \<Rightarrow> ModrinthFacet" where
  "Facet_versions v = ModrinthFacet VERSIONS EQUAL (VString v)"

subsection \<open>ModrinthFacetGroup\<close>

record ModrinthFacetGroup =
  facets :: "ModrinthFacet list"

definition Group_new :: "ModrinthFacet list \<Rightarrow> ModrinthFacetGroup" where
  "Group_new fs = \<lparr> facets = fs \<rparr>"

definition Group_addFacet :: "ModrinthFacetGroup \<Rightarrow> ModrinthFacet \<Rightarrow> ModrinthFacetGroup" where
  "Group_addFacet g f = g \<lparr> facets := facets g @ [f] \<rparr>"

definition Group_addFacets :: "ModrinthFacetGroup \<Rightarrow> ModrinthFacet list \<Rightarrow> ModrinthFacetGroup" where
  "Group_addFacets g fs = g \<lparr> facets := facets g @ fs \<rparr>"

definition Group_isEmpty :: "ModrinthFacetGroup \<Rightarrow> bool" where
  "Group_isEmpty g \<longleftrightarrow> length (facets g) = 0"

definition Group_toArray :: "ModrinthFacetGroup \<Rightarrow> jsstring list" where
  "Group_toArray g = map Facet_toString (facets g)"

definition Group_toString :: "ModrinthFacetGroup \<Rightarrow> jsstring" where
  "Group_toString g = JSON_stringify_strings (Group_toArray g)"

text \<open>
  The static constructors loop with \<^verbatim>\<open>forEach\<close> over \<^verbatim>\<open>group.addFacet\<close>.
\<close>

definition Group_projectTypes :: "jsstring list \<Rightarrow> ModrinthFacetGroup" where
  "Group_projectTypes types = foldl (\<lambda>g t. Group_addFacet g (Facet_projectType t)) (Group_new []) types"

definition Group_categories :: "jsstring list \<Rightarrow> ModrinthFacetGroup" where
  "Group_categories cs = foldl (\<lambda>g c. Group_addFacet g (Facet_categories c)) (Group_new []) cs"

definition Group_versions :: "jsstring list \<Rightarrow> ModrinthFacetGroup" where
  "Group_versions vs = foldl (\<lambda>g v. Group_addFacet g (Facet_versions v)) (Group_new []) vs"

subsection \<open>ModrinthFacetBuilder\<close>

text \<open>
  The builder's methods mutate \<^verbatim>\<open>this.groups\<close> and return \<^verbatim>\<open>this\<close>; the model
  returns the builder after the call. The builder keeps the group object it is given;
  the model keeps the facets the group holds at the call, which are the ones
  \<^verbatim>\<open>build\<close> reads as long as the caller does not change the group afterwards.
\<close>

record ModrinthFacetBuilder =
  groups :: "ModrinthFacetGroup list"

definition Builder_new :: ModrinthFacetBuilder where
  "Builder_new = \<lparr> groups = [] \<rparr>"

definition addGroup :: "ModrinthFacetBuilder \<Rightarrow> ModrinthFacetGroup \<Rightarrow> ModrinthFacetBuilder" where
  "addGroup b g = (if \<not> Group_isEmpty g then b \<lparr> groups := groups b @ [g] \<rparr> else b)"

definition addGroups :: "ModrinthFacetBuilder \<Rightarrow> ModrinthFacetGroup list \<Rightarrow> ModrinthFacetBuilder" where
  "addGroups b gs = foldl addGroup b gs"

definition addFacet :: "ModrinthFacetBuilder \<Rightarrow> ModrinthFacet \<Rightarrow> ModrinthFacetBuilder" where
  "addFacet b f = b \<lparr> groups := groups b @ [Group_new [f]] \<rparr>"

definition addFacets :: "ModrinthFacetBuilder \<Rightarrow> ModrinthFacet list \<Rightarrow> ModrinthFacetBuilder" where
  "addFacets b fs = foldl addFacet b fs"

definition build :: "ModrinthFacetBuilder \<Rightarrow> jsstring" where
  "build b =
     (if length (groups b) = 0 then []
      else JSON_stringify_arrays (map Group_toArray (groups b)))"

subsection \<open>ModrinthAPI.processFacets\<close>

text \<open>
  \<^verbatim>\<open>facets: string | ModrinthFacetBuilder | ModrinthFacetGroup | ModrinthFacet[]\<close>, told
  apart by \<^verbatim>\<open>typeof\<close>, \<^verbatim>\<open>instanceof\<close> and \<^verbatim>\<open>Array.isArray\<close>. The final
  \<^verbatim>\<open>return ""\<close> is reached by no value of that type.
\<close>

datatype facets_input =
    FacetsString jsstring
  | FacetsBuilder ModrinthFacetBuilder
  | FacetsGroup ModrinthFacetGroup
  | FacetsArray "ModrinthFacet list"

fun processFacets :: "facets_input \<Rightarrow> jsstring" where
  "processFacets (FacetsString s) = s"
| "processFacets (FacetsBuilder b) = build b"
| "processFacets (FacetsGroup g) = JSON_stringify_arrays [Group_toArray g]"
| "processFacets (FacetsArray fs) = JSON_stringify_arrays [map Facet_toString fs]"

section \<open>SpigetAPI.downloadResource\<close>

text \<open>
  Of a \<^verbatim>\<open>SpigetResource\<close> the method reads \<^verbatim>\<open>external\<close> and
  \<^verbatim>\<open>file.externalUrl\<close>; the other fields are left out (\<open>file\<close> is a keyword of
  Isabelle, so the field is \<open>resource_file\<close>).
\<close>

record SpigetFile =
  externalUrl :: jsstring

record SpigetResource =
  external :: bool
  resource_file :: SpigetFile

definition SpigetAPI_constructor :: "jsstring option \<Rightarrow> jsstring option \<Rightarrow> BaseAPIClient" where
  "SpigetAPI_constructor url agent =
     BaseAPIClient_constructor
       (case url of None \<Rightarrow> js ''https://api.spiget.org/v2'' | Some b \<Rightarrow> b) agent"

text \<open>
  The network is a parameter: for a URL, what \<^verbatim>\<open>ky.get(url)\<close> settles to after its
  own retries, as parsed JSON (\<open>get_json\<close>) or as the raw response (\<open>get_raw\<close>). The
  state threaded through the calls is the list of the URLs requested so far.
\<close>

record spiget_network =
  get_json :: "jsstring \<Rightarrow> error + SpigetResource"
  get_raw :: "jsstring \<Rightarrow> error + http_response"

definition Spiget_makeRequest ::
  "BaseAPIClient \<Rightarrow> spiget_network \<Rightarrow> jsstring \<Rightarrow> jsstring list
     \<Rightarrow> (SpigetError + SpigetResource) \<times> jsstring list" where
  "Spiget_makeRequest client net endpoint requested =
     (let url = baseUrl client @ endpoint in
      ((case get_json net url of
          Inl err \<Rightarrow>
            Inl (Spiget_handleError (as_thrown err) Spiget_API_REQUEST_FAILED
                   (js ''Failed to fetch '' @ endpoint))
        | Inr v \<Rightarrow> Inr v),
       requested @ [url]))"

definition Spiget_makeRawRequest ::
  "BaseAPIClient \<Rightarrow> spiget_network \<Rightarrow> jsstring \<Rightarrow> jsstring list
     \<Rightarrow> (SpigetError + http_response) \<times> jsstring list" where
  "Spiget_makeRawRequest client net url requested =
     ((case get_raw net url of
         Inl err \<Rightarrow>
           Inl (Spiget_handleError (as_thrown err) Spiget_DOWNLOAD_FAILED
                  (js ''Failed to download from '' @ url))
       | Inr v \<Rightarrow> Inr v),
      requested @ [url])"

definition getResource ::
  "BaseAPIClient \<Rightarrow> spiget_network \<Rightarrow> int \<Rightarrow> jsstring list
     \<Rightarrow> (SpigetError + SpigetResource) \<times> jsstring list" where
  "getResource client net resourceId requested =
     Spiget_makeRequest client net (js ''/resources/'' @ Number_toString resourceId) requested"

definition download_url :: "BaseAPIClient \<Rightarrow> int \<Rightarrow> jsstring" where
  "download_url client resourceId =
     baseUrl client @ js ''/resources/'' @ Number_toString resourceId @ js ''/download''"

definition downloadResource ::
  "BaseAPIClient \<Rightarrow> spiget_network \<Rightarrow> int \<Rightarrow> jsstring list
     \<Rightarrow> (SpigetError + http_response) \<times> jsstring list" where
  "downloadResource client net resourceId requested =
     (case getResource client net resourceId requested of
        (Inl e, requested') \<Rightarrow> (Inl e, requested')
      | (Inr resource, requested') \<Rightarrow>
          if external resource then
            (Inl (SpigetError Spiget_EXTERNAL_FILE_DOWNLOAD
                    (js ''Cannot download external resource '' @ Number_toString resourceId
                       @ js ''. Use externalUrl instead.'')
                    (SpigetExternal resourceId (externalUrl (resource_file resource)))),
             requested')
          else Spiget_makeRawRequest client net (download_url client resourceId) requested')"

section \<open>HangarAPI\<close>

datatype HangarCategory =
    ADMIN_TOOLS
  | CHAT
  | DEV_TOOLS
  | ECONOMY
  | GAMEPLAY
  | GAMES
  | PROTECTION
  | ROLE_PLAYING
  | WORLD_MANAGEMENT
  | MISC

fun HangarCategory_string :: "HangarCategory \<Rightarrow> jsstring" where
  "HangarCategory_string ADMIN_TOOLS = js ''admin_tools''"
| "HangarCategory_string CHAT = js ''chat''"
| "HangarCategory_string DEV_TOOLS = js ''dev_tools''"
| "HangarCategory_string ECONOMY = js ''economy''"
| "HangarCategory_string GAMEPLAY = js ''gameplay''"
| "HangarCategory_string GAMES = js ''games''"
| "HangarCategory_string PROTECTION = js ''protection''"
| "HangarCategory_string ROLE_PLAYING = js ''role_playing''"
| "HangarCategory_string WORLD_MANAGEMENT = js ''world_management''"
| "HangarCategory_string MISC = js ''misc''"

datatype HangarPlatform =
    PAPER
  | VELOCITY
  | WATERFALL

fun HangarPlatform_string :: "HangarPlatform \<Rightarrow> jsstring" where
  "HangarPlatform_string PAPER = js ''PAPER''"
| "HangarPlatform_string VELOCITY = js ''VELOCITY''"
| "HangarPlatform_string WATERFALL = js ''WATERFALL''"

text \<open>
  \<^verbatim>\<open>HangarProjectSort.DOWNLOADS\<close> is written \<open>SORT_DOWNLOADS\<close>: the facet type
  \<open>DOWNLOADS\<close> has the name already.
\<close>

datatype HangarProjectSort =
    VIEWS
  | SORT_DOWNLOADS
  | NEWEST
  | STARS
  | UPDATED
  | RECENT_DOWNLOADS
  | RECENT_VIEWS

fun HangarProjectSort_string :: "HangarProjectSort \<Rightarrow> jsstring" where
  "HangarProjectSort_string VIEWS = js ''views''"
| "HangarProjectSort_string SORT_DOWNLOADS = js ''downloads''"
| "HangarProjectSort_string NEWEST = js ''newest''"
| "HangarProjectSort_string STARS = js ''stars''"
| "HangarProjectSort_string UPDATED = js ''updated''"
| "HangarProjectSort_string RECENT_DOWNLOADS = js ''recent_downloads''"
| "HangarProjectSort_string RECENT_VIEWS = js ''recent_views''"

text \<open>\<^verbatim>\<open>T | T[]\<close>.\<close>

datatype 'a one_or_many = Single 'a | Many "'a list"

text \<open>
  \<^verbatim>\<open>HangarAPIOptions\<close> and \<^verbatim>\<open>HangarProjectSearchOptions\<close>; the fields are prefixed
  because \<open>limit\<close> and \<open>timeout\<close> name fields of the request core already.
\<close>

record HangarAPIOptions =
  opt_baseUrl :: "jsstring option"
  opt_userAgent :: "jsstring option"
  opt_timeout :: "number option"

record HangarProjectSearchOptions =
  search_q :: "jsstring option"
  search_category :: "HangarCategory one_or_many option"
  search_platform :: "HangarPlatform one_or_many option"
  search_owner :: "jsstring option"
  search_sort :: "HangarProjectSort option"
  search_limit :: "number option"
  search_offset :: "number option"

definition HangarAPI_constructor :: "HangarAPIOptions \<Rightarrow> BaseAPIClient" where
  "HangarAPI_constructor options =
     BaseAPIClient_constructor
       (or_else (opt_baseUrl options) (js ''https://hangar.papermc.io/api/v1''))
       (Some (or_else (opt_userAgent options) (js ''shulkers/1.0.0'')))"

text \<open>
  The \<^verbatim>\<open>params\<close> object of \<^verbatim>\<open>searchProjects\<close>, in the order of its assignments.
  \<^verbatim>\<open>if (options.q)\<close> tests truthiness: an absent or empty string sets nothing (an
  array is always truthy); \<^verbatim>\<open>options.limit !== undefined\<close> tests presence only.
\<close>

definition searchProjects_params ::
  "HangarProjectSearchOptions \<Rightarrow> (jsstring \<times> param) list" where
  "searchProjects_params options =
     (case search_q options of
        None \<Rightarrow> []
      | Some v \<Rightarrow> if v \<noteq> [] then [(js ''q'', PString v)] else [])
     @ (case search_owner options of
          None \<Rightarrow> []
        | Some v \<Rightarrow> if v \<noteq> [] then [(js ''owner'', PString v)] else [])
     @ (case search_sort options of
          None \<Rightarrow> []
        | Some v \<Rightarrow>
            if HangarProjectSort_string v \<noteq> []
            then [(js ''sort'', PString (HangarProjectSort_string v))] else [])
     @ (case search_limit options of
          None \<Rightarrow> []
        | Some l \<Rightarrow> [(js ''limit'', PNumber (Math_min l (Finite 25)))])
     @ (case search_offset options of
          None \<Rightarrow> []
        | Some off \<Rightarrow> [(js ''offset'', PNumber off)])
     @ (case search_category options of
          None \<Rightarrow> []
        | Some (Many cs) \<Rightarrow> [(js ''category'', PArray (map HangarCategory_string cs))]
        | Some (Single c) \<Rightarrow>
            if HangarCategory_string c \<noteq> []
            then [(js ''category'', PArray [HangarCategory_string c])] else [])
     @ (case search_platform options of
          None \<Rightarrow> []
        | Some (Many ps) \<Rightarrow> [(js ''platform'', PArray (map HangarPlatform_string ps))]
        | Some (Single p) \<Rightarrow>
            if HangarPlatform_string p \<noteq> []
            then [(js ''platform'', PArray [HangarPlatform_string p])] else [])"

text \<open>
  \<^verbatim>\<open>searchProjects\<close> ends in \<^verbatim>\<open>this.makeRequest("/projects", params)\<close>: the URL and
  the options of the \<^verbatim>\<open>ky.get\<close> it issues.
\<close>

definition searchProjects_request ::
  "BaseAPIClient \<Rightarrow> HangarProjectSearchOptions \<Rightarrow> jsstring \<times> request_options" where
  "searchProjects_request client options =
     (baseUrl client @ js ''/projects'',
      makeRequest_options client (Some (searchProjects_params options)))"

section \<open>Properties\<close>

subsection \<open>Embedded text\<close>

lemma of_char_lt: "(of_char a :: nat) < 256"
  by (cases a) (simp add: of_char_def) 

lemma unat_unit_of: "unat (unit_of a) = of_char a"
proof -
  have "(of_char a :: nat) < 65536" using of_char_lt [of a] by linarith
  then show ?thesis unfolding unit_of_def by (simp add: unat_of_nat)
qed

lemma unit_of_inj: "unit_of a = unit_of b \<longleftrightarrow> a = b"
proof
  assume "unit_of a = unit_of b"
  then have "unat (unit_of a) = unat (unit_of b)" by simp
  then have "(of_char a :: nat) = of_char b" by (simp only: unat_unit_of)
  then show "a = b" by simp
next
  assume "a = b" then show "unit_of a = unit_of b" by simp
qed

lemma js_eq_iff: "js a = js b \<longleftrightarrow> a = b"
proof (induction a arbitrary: b)
  case Nil
  then show ?case by (cases b) (simp_all add: js_def)
next
  case (Cons x xs)
  then show ?case by (cases b) (simp_all add: js_def unit_of_inj)
qed

lemma js_Nil_iff: "js a = [] \<longleftrightarrow> a = []"
  by (simp add: js_def)

lemma js_empty: "js [] = []"
  by (simp add: js_def)

lemma Nil_js_iff: "[] = js a \<longleftrightarrow> a = []"
  by (simp add: js_def)

subsection \<open>Timeouts\<close>

lemma calculateRetryDelay_timeout:
  "calculateRetryDelay env opts c TimeoutError = (Inl TimeoutError, Suc c)"
  by (simp add: calculateRetryDelay_def)

lemma retry_timeout_head:
  "retry env opts c (Rejected TimeoutError # rest) = Thrown TimeoutError"
  by (simp add: calculateRetryDelay_timeout)

lemma retry_timeout_cut:
  "retry env opts c (pre @ Rejected TimeoutError # rest)
     = retry env opts c (pre @ [Rejected TimeoutError])"
proof (induction pre arbitrary: c)
  case Nil
  show ?case by (simp add: calculateRetryDelay_timeout)
next
  case (Cons a pre)
  show ?case
  proof (cases a)
    case (Resolved v)
    then show ?thesis by simp
  next
    case (Rejected e)
    obtain res c' where r: "calculateRetryDelay env opts c e = (res, c')"
      by (cases "calculateRetryDelay env opts c e")
    show ?thesis
    proof (cases res)
      case (Inl e')
      with r Rejected show ?thesis by simp
    next
      case (Inr d)
      with r Rejected Cons.IH [of c'] show ?thesis by simp
    qed
  qed
qed

lemma once_timeout_cut:
  "once (pre @ Rejected TimeoutError # rest) = once (pre @ [Rejected TimeoutError])"
proof (cases pre)
  case Nil
  then show ?thesis by simp
next
  case (Cons a pre')
  then show ?thesis by (cases a) simp_all
qed

lemma retry_timeout_settled:
  "settled (retry env opts c (pre @ [Rejected TimeoutError])) \<noteq> Pending"
proof (induction pre arbitrary: c)
  case Nil
  show ?case by (simp add: calculateRetryDelay_timeout)
next
  case (Cons a pre)
  show ?case
  proof (cases a)
    case (Resolved v)
    then show ?thesis by simp
  next
    case (Rejected e)
    obtain res c' where r: "calculateRetryDelay env opts c e = (res, c')"
      by (cases "calculateRetryDelay env opts c e")
    show ?thesis
    proof (cases res)
      case (Inl e')
      with r Rejected show ?thesis by simp
    next
      case (Inr d)
      with r Rejected Cons.IH [of c'] show ?thesis by simp
    qed
  qed
qed

lemma once_timeout_settled:
  "settled (once (pre @ [Rejected TimeoutError])) \<noteq> Pending"
proof (cases pre)
  case Nil
  then show ?thesis by simp
next
  case (Cons a pre')
  then show ?thesis by (cases a) simp_all
qed

text \<open>
  Claim C7. A timeout is never retried. Whatever the environment, the retry options
  (so whatever the retryable methods and status codes, and however many retries are
  left) and the retry count reached, \<^verbatim>\<open>_calculateRetryDelay\<close> throws a
  \<^verbatim>\<open>TimeoutError\<close> back, \<^verbatim>\<open>_retry\<close> rethrows it without sleeping, and a request of
  any method whose attempt times out settles with that error: what the later attempts
  would have answered is never asked for.
\<close>

theorem timeout_is_never_retried:
  "calculateRetryDelay env opts c TimeoutError = (Inl TimeoutError, Suc c)
   \<and> retry env opts c (Rejected TimeoutError # rest) = Thrown TimeoutError
   \<and> Ky_create env opts m (Rejected TimeoutError # rest) = Thrown TimeoutError
   \<and> Ky_create env opts m (pre @ Rejected TimeoutError # rest)
       = Ky_create env opts m (pre @ [Rejected TimeoutError])
   \<and> settled (Ky_create env opts m (pre @ [Rejected TimeoutError])) \<noteq> Pending"
proof (intro conjI)
  show "calculateRetryDelay env opts c TimeoutError = (Inl TimeoutError, Suc c)"
    by (rule calculateRetryDelay_timeout)
  show "retry env opts c (Rejected TimeoutError # rest) = Thrown TimeoutError"
    by (rule retry_timeout_head)
  show "Ky_create env opts m (Rejected TimeoutError # rest) = Thrown TimeoutError"
    unfolding Ky_create_def by (simp only: retry_timeout_head once.simps if_cancel)
  show "Ky_create env opts m (pre @ Rejected TimeoutError # rest)
       = Ky_create env opts m (pre @ [Rejected TimeoutError])"
    unfolding Ky_create_def
    by (simp only: retry_timeout_cut [of env opts 0 pre rest] once_timeout_cut [of pre rest])
  show "settled (Ky_create env opts m (pre @ [Rejected TimeoutError])) \<noteq> Pending"
    unfolding Ky_create_def
    by (cases "toLowerCase m \<in> set (methods opts)")
       (simp_all only: if_True if_False retry_timeout_settled once_timeout_settled
          not_False_eq_True)
qed

subsection \<open>The error mappers\<close>

lemmas handleError_defs =
  Spiget_handleError_def Spiget_handleError_response_def
  Modrinth_handleError_def Modrinth_handleError_response_def
  Hangar_handleError_def Hangar_handleError_response_def

text \<open>
  Claim C3, amended. The three mappers are total functions of the caught value, the
  default kind and the default message. For a value with a response: 404 maps to
  RESOURCE_NOT_FOUND; 401 to UNAUTHORIZED, and for Hangar 403 too; 429 to
  RATE_LIMIT_EXCEEDED; for Hangar 422 to VALIDATION_ERROR; every other status from 400
  to 499 to INVALID_SEARCH_PARAMETERS; every status from 500 on, with no upper bound, to
  API_REQUEST_FAILED. A value with no response, or with a response whose status is
  below 400, maps to NETWORK_ERROR when its name is NetworkError or its code is
  ECONNRESET or ENOTFOUND, and to the caller's default kind and message otherwise.
\<close>

theorem handleError_table:
  "(response err = Some r \<and> status r = 404 \<longrightarrow>
      spiget_code (Spiget_handleError err dS mS) = Spiget_RESOURCE_NOT_FOUND
      \<and> modrinth_code (Modrinth_handleError err dM mM) = Modrinth_RESOURCE_NOT_FOUND
      \<and> hangar_code (Hangar_handleError err dH mH) = Hangar_RESOURCE_NOT_FOUND)
   \<and> (response err = Some r \<and> status r = 401 \<longrightarrow>
      spiget_code (Spiget_handleError err dS mS) = Spiget_UNAUTHORIZED
      \<and> modrinth_code (Modrinth_handleError err dM mM) = Modrinth_UNAUTHORIZED
      \<and> hangar_code (Hangar_handleError err dH mH) = Hangar_UNAUTHORIZED)
   \<and> (response err = Some r \<and> status r = 403 \<longrightarrow>
      hangar_code (Hangar_handleError err dH mH) = Hangar_UNAUTHORIZED)
   \<and> (response err = Some r \<and> status r = 429 \<longrightarrow>
      spiget_code (Spiget_handleError err dS mS) = Spiget_RATE_LIMIT_EXCEEDED
      \<and> modrinth_code (Modrinth_handleError err dM mM) = Modrinth_RATE_LIMIT_EXCEEDED
      \<and> hangar_code (Hangar_handleError err dH mH) = Hangar_RATE_LIMIT_EXCEEDED)
   \<and> (response err = Some r \<and> status r = 422 \<longrightarrow>
      hangar_code (Hangar_handleError err dH mH) = Hangar_VALIDATION_ERROR)
   \<and> (response err = Some r \<and> 400 \<le> status r \<and> status r < 500
        \<and> status r \<noteq> 404 \<and> status r \<noteq> 401 \<and> status r \<noteq> 429 \<longrightarrow>
      spiget_code (Spiget_handleError err dS mS) = Spiget_INVALID_SEARCH_PARAMETERS
      \<and> modrinth_code (Modrinth_handleError err dM mM) = Modrinth_INVALID_SEARCH_PARAMETERS)
   \<and> (response err = Some r \<and> 400 \<le> status r \<and> status r < 500
        \<and> status r \<noteq> 404 \<and> status r \<noteq> 401 \<and> status r \<noteq> 403 \<and> status r \<noteq> 429
        \<and> status r \<noteq> 422 \<longrightarrow>
      hangar_code (Hangar_handleError err dH mH) = Hangar_INVALID_SEARCH_PARAMETERS)
   \<and> (response err = Some r \<and> 500 \<le> status r \<longrightarrow>
      spiget_code (Spiget_handleError err dS mS) = Spiget_API_REQUEST_FAILED
      \<and> modrinth_code (Modrinth_handleError err dM mM) = Modrinth_API_REQUEST_FAILED
      \<and> hangar_code (Hangar_handleError err dH mH) = Hangar_API_REQUEST_FAILED)
   \<and> ((response err = None \<or> (response err = Some r \<and> status r < 400))
        \<and> (name err = Some (js ''NetworkError'') \<or> code err = Some (js ''ECONNRESET'')
             \<or> code err = Some (js ''ENOTFOUND'')) \<longrightarrow>
      spiget_code (Spiget_handleError err dS mS) = Spiget_NETWORK_ERROR
      \<and> modrinth_code (Modrinth_handleError err dM mM) = Modrinth_NETWORK_ERROR
      \<and> hangar_code (Hangar_handleError err dH mH) = Hangar_NETWORK_ERROR)
   \<and> ((response err = None \<or> (response err = Some r \<and> status r < 400))
        \<and> name err \<noteq> Some (js ''NetworkError'') \<and> code err \<noteq> Some (js ''ECONNRESET'')
        \<and> code err \<noteq> Some (js ''ENOTFOUND'') \<longrightarrow>
      spiget_code (Spiget_handleError err dS mS) = dS
      \<and> spiget_message (Spiget_handleError err dS mS) = mS
      \<and> modrinth_code (Modrinth_handleError err dM mM) = dM
      \<and> modrinth_message (Modrinth_handleError err dM mM) = mM
      \<and> hangar_code (Hangar_handleError err dH mH) = dH
      \<and> hangar_message (Hangar_handleError err dH mH) = mH)"
  unfolding handleError_defs by (cases "response err") (simp_all add: Let_def)

theorem handleError_table_witness:
  "hangar_code (Hangar_handleError
      \<lparr> response = Some \<lparr> status = 422, headers = [] \<rparr>, name = Some (js ''HTTPError''),
        code = None \<rparr> Hangar_API_REQUEST_FAILED (js ''Failed to fetch /projects''))
     = Hangar_VALIDATION_ERROR
   \<and> spiget_code (Spiget_handleError
      \<lparr> response = Some \<lparr> status = 418, headers = [] \<rparr>, name = Some (js ''HTTPError''),
        code = None \<rparr> Spiget_API_REQUEST_FAILED (js ''Failed to fetch /status''))
     = Spiget_INVALID_SEARCH_PARAMETERS
   \<and> modrinth_code (Modrinth_handleError
      \<lparr> response = Some \<lparr> status = 999, headers = [] \<rparr>, name = Some (js ''HTTPError''),
        code = None \<rparr> Modrinth_DOWNLOAD_FAILED (js ''Failed to download''))
     = Modrinth_API_REQUEST_FAILED
   \<and> spiget_code (Spiget_handleError
      \<lparr> response = None, name = Some (js ''Error''), code = Some (js ''ECONNRESET'') \<rparr>
      Spiget_API_REQUEST_FAILED (js ''Failed to fetch /status''))
     = Spiget_NETWORK_ERROR
   \<and> modrinth_code (Modrinth_handleError
      \<lparr> response = None, name = Some (js ''TimeoutError''), code = None \<rparr>
      Modrinth_DOWNLOAD_FAILED (js ''Failed to download''))
     = Modrinth_DOWNLOAD_FAILED"
  using
    handleError_table [of
      "\<lparr> response = Some \<lparr> status = 422, headers = [] \<rparr>, name = Some (js ''HTTPError''),
         code = None \<rparr>" "\<lparr> status = 422, headers = [] \<rparr>" _ _ _ _
      Hangar_API_REQUEST_FAILED "js ''Failed to fetch /projects''"]
    handleError_table [of
      "\<lparr> response = Some \<lparr> status = 418, headers = [] \<rparr>, name = Some (js ''HTTPError''),
         code = None \<rparr>" "\<lparr> status = 418, headers = [] \<rparr>"
      Spiget_API_REQUEST_FAILED "js ''Failed to fetch /status''"]
    handleError_table [of
      "\<lparr> response = Some \<lparr> status = 999, headers = [] \<rparr>, name = Some (js ''HTTPError''),
         code = None \<rparr>" "\<lparr> status = 999, headers = [] \<rparr>" _ _
      Modrinth_DOWNLOAD_FAILED "js ''Failed to download''"]
    handleError_table [of
      "\<lparr> response = None, name = Some (js ''Error''), code = Some (js ''ECONNRESET'') \<rparr>" _
      Spiget_API_REQUEST_FAILED "js ''Failed to fetch /status''"]
    handleError_table [of
      "\<lparr> response = None, name = Some (js ''TimeoutError''), code = None \<rparr>" _ _ _
      Modrinth_DOWNLOAD_FAILED "js ''Failed to download''"]
  by (simp add: js_eq_iff)

text \<open>
  Claim C3 as stated sends every input outside its list, so a status of 600, to the
  caller's default kind. The mappers test \<^verbatim>\<open>status >= 500\<close> with no upper bound: a
  response with status 600 maps to API_REQUEST_FAILED, also when the default is
  DOWNLOAD_FAILED.
\<close>

theorem handleError_status_600:
  "spiget_code (Spiget_handleError
      \<lparr> response = Some \<lparr> status = 600, headers = [] \<rparr>, name = Some (js ''HTTPError''),
        code = None \<rparr> Spiget_DOWNLOAD_FAILED (js ''Failed to download''))
     = Spiget_API_REQUEST_FAILED
   \<and> modrinth_code (Modrinth_handleError
      \<lparr> response = Some \<lparr> status = 600, headers = [] \<rparr>, name = Some (js ''HTTPError''),
        code = None \<rparr> Modrinth_DOWNLOAD_FAILED (js ''Failed to download''))
     = Modrinth_API_REQUEST_FAILED
   \<and> hangar_code (Hangar_handleError
      \<lparr> response = Some \<lparr> status = 600, headers = [] \<rparr>, name = Some (js ''HTTPError''),
        code = None \<rparr> Hangar_DOWNLOAD_FAILED (js ''Failed to download''))
     = Hangar_API_REQUEST_FAILED
   \<and> Spiget_API_REQUEST_FAILED \<noteq> Spiget_DOWNLOAD_FAILED
   \<and> Modrinth_API_REQUEST_FAILED \<noteq> Modrinth_DOWNLOAD_FAILED
   \<and> Hangar_API_REQUEST_FAILED \<noteq> Hangar_DOWNLOAD_FAILED"
  by (simp add: handleError_defs)

subsection \<open>The configured timeout\<close>

text \<open>
  \<^verbatim>\<open>HangarAPIOptions\<close> declares \<^verbatim>\<open>timeout?: number\<close> and the class comment
  constructs a client with \<^verbatim>\<open>timeout: 10000\<close>, but the constructor passes only the
  base URL and the user agent on, and no request method of the client sets
  \<^verbatim>\<open>timeout\<close> in the options it gives to \<^verbatim>\<open>ky\<close>: every attempt runs under the
  default timer.
\<close>

lemma HangarAPI_timeout_unused:
  "ky_timeout (Ky_constructor m (makeRequest_options (HangarAPI_constructor options) params))
     = TimeoutMs (Finite 10000)
   \<and> ky_timeout (Ky_constructor m (makePostRequest_options (HangarAPI_constructor options) body params))
     = TimeoutMs (Finite 10000)
   \<and> ky_timeout (Ky_constructor m (makeRawRequest_options (HangarAPI_constructor options)))
     = TimeoutMs (Finite 10000)"
  by (simp add: Ky_constructor_def makeRequest_options_def makePostRequest_options_def
        makeRawRequest_options_def)

text \<open>
  Claim C6, at the input \<^verbatim>\<open>new HangarAPI({ timeout: 5000 })\<close>: an attempt of a request
  of that client is timed at 10000 ms, not at the 5000 ms configured.
\<close>

theorem HangarAPI_timeout_5000_ignored:
  "attempt_timer
     (Ky_constructor (js ''GET'')
        (makeRequest_options
           (HangarAPI_constructor
              \<lparr> opt_baseUrl = None, opt_userAgent = None, opt_timeout = Some (Finite 5000) \<rparr>)
           (Some [])))
     = Some (Finite 10000)"
  by (simp add: attempt_timer_def HangarAPI_timeout_unused)

subsection \<open>The facet builder\<close>

lemma addGroup_empty: "Group_isEmpty g \<Longrightarrow> addGroup b g = b"
  by (simp add: addGroup_def)

lemma addGroups_all_empty: "\<forall>g\<in>set gs. Group_isEmpty g \<Longrightarrow> addGroups b gs = b"
  unfolding addGroups_def by (induction gs arbitrary: b) (simp_all add: addGroup_empty)

text \<open>
  Claim C8. \<^verbatim>\<open>addGroup\<close> leaves the builder as it is when the group is empty, so
  \<^verbatim>\<open>build()\<close> on a builder to which no group, or only empty groups, were added
  (one by one or with \<^verbatim>\<open>addGroups\<close>) returns the empty string, which is not the
  text \<^verbatim>\<open>[]\<close>.
\<close>

theorem build_without_groups:
  assumes "\<forall>g\<in>set gs. Group_isEmpty g"
  shows "build (addGroups Builder_new gs) = js ''''
         \<and> build (addGroups Builder_new gs) \<noteq> js ''[]''
         \<and> build (foldl addGroup Builder_new gs) = js ''''"
  using addGroups_all_empty [OF assms, of Builder_new]
  by (simp add: build_def Builder_new_def Nil_js_iff js_empty addGroups_def)

theorem build_without_groups_witness:
  "build (addGroups Builder_new []) = js ''''
   \<and> build (addGroups Builder_new [Group_new [], Group_projectTypes []]) = js ''''
   \<and> build (addGroups Builder_new [Group_new [], Group_projectTypes []]) \<noteq> js ''[]''"
  using build_without_groups [of "[]"]
    build_without_groups [of "[Group_new [], Group_projectTypes []]"]
  by (simp add: Group_isEmpty_def Group_new_def Group_projectTypes_def js_eq_iff)

subsection \<open>HangarAPI.searchProjects\<close>

lemma map_of_buildSearchParams:
  "map_of (buildSearchParams ps) k = map_option searchParam_value (map_of ps k)"
  unfolding buildSearchParams_def by (induction ps) auto

lemma HangarProjectSort_string_truthy: "HangarProjectSort_string v \<noteq> []"
  by (cases v) (simp_all add: js_Nil_iff)

lemma HangarCategory_string_truthy: "HangarCategory_string c \<noteq> []"
  by (cases c) (simp_all add: js_Nil_iff)

lemma HangarPlatform_string_truthy: "HangarPlatform_string p \<noteq> []"
  by (cases p) (simp_all add: js_Nil_iff)

lemmas enum_truthy =
  HangarProjectSort_string_truthy HangarCategory_string_truthy HangarPlatform_string_truthy

lemma Math_min_Finite: "Math_min (Finite a) (Finite b) = Finite (min a b)"
  by (simp add: Math_min_def min_def)

text \<open>
  Each assignment to \<^verbatim>\<open>params\<close> contributes at most one entry, under its own key.
\<close>

lemma map_of_entries:
  "map_of (case v of None \<Rightarrow> [] | Some x \<Rightarrow> if c x then [(k, f x)] else []) k'
     = (if k = k' then (case v of None \<Rightarrow> None | Some x \<Rightarrow> if c x then Some (f x) else None)
        else None)"
  "map_of (case v of None \<Rightarrow> [] | Some x \<Rightarrow> [(k, f x)]) k'
     = (if k = k' then map_option f v else None)"
  "map_of (case w of None \<Rightarrow> [] | Some (Many xs) \<Rightarrow> [(k, g xs)]
           | Some (Single x) \<Rightarrow> if d x then [(k, h x)] else []) k'
     = (if k = k'
        then (case w of None \<Rightarrow> None | Some (Many xs) \<Rightarrow> Some (g xs)
              | Some (Single x) \<Rightarrow> if d x then Some (h x) else None)
        else None)"
  by (simp_all split: option.split one_or_many.split)

lemma params_limit:
  "map_of (searchProjects_params options) (js ''limit'')
     = map_option (\<lambda>l. PNumber (Math_min l (Finite 25))) (search_limit options)"
  unfolding searchProjects_params_def
  by (simp only: map_of_append map_add_def map_of_entries)
     (simp add: js_eq_iff enum_truthy split: option.split one_or_many.split)

lemma params_q:
  "map_of (searchProjects_params options) (js ''q'')
     = (case search_q options of
          None \<Rightarrow> None
        | Some v \<Rightarrow> if v \<noteq> [] then Some (PString v) else None)"
  unfolding searchProjects_params_def
  by (simp only: map_of_append map_add_def map_of_entries)
     (simp add: js_eq_iff enum_truthy split: option.split one_or_many.split)

lemma params_owner:
  "map_of (searchProjects_params options) (js ''owner'')
     = (case search_owner options of
          None \<Rightarrow> None
        | Some v \<Rightarrow> if v \<noteq> [] then Some (PString v) else None)"
  unfolding searchProjects_params_def
  by (simp only: map_of_append map_add_def map_of_entries)
     (simp add: js_eq_iff enum_truthy split: option.split one_or_many.split)

lemma params_sort:
  "map_of (searchProjects_params options) (js ''sort'')
     = map_option (\<lambda>x. PString (HangarProjectSort_string x)) (search_sort options)"
  unfolding searchProjects_params_def
  by (simp only: map_of_append map_add_def map_of_entries)
     (simp add: js_eq_iff enum_truthy split: option.split one_or_many.split)

lemma params_offset:
  "map_of (searchProjects_params options) (js ''offset'')
     = map_option PNumber (search_offset options)"
  unfolding searchProjects_params_def
  by (simp only: map_of_append map_add_def map_of_entries)
     (simp add: js_eq_iff enum_truthy split: option.split one_or_many.split)

lemma params_category:
  "map_of (searchProjects_params options) (js ''category'')
     = map_option (\<lambda>c. PArray (case c of Single x \<Rightarrow> [HangarCategory_string x]
                                 | Many xs \<Rightarrow> map HangarCategory_string xs))
         (search_category options)"
  unfolding searchProjects_params_def
  by (simp only: map_of_append map_add_def map_of_entries)
     (simp add: js_eq_iff enum_truthy split: option.split one_or_many.split)

lemma params_platform:
  "map_of (searchProjects_params options) (js ''platform'')
     = map_option (\<lambda>c. PArray (case c of Single x \<Rightarrow> [HangarPlatform_string x]
                                 | Many xs \<Rightarrow> map HangarPlatform_string xs))
         (search_platform options)"
  unfolding searchProjects_params_def
  by (simp only: map_of_append map_add_def map_of_entries)
     (simp add: js_eq_iff enum_truthy split: option.split one_or_many.split)

text \<open>
  Claim C10, amended. The \<^verbatim>\<open>limit\<close> parameter is present exactly when the option is,
  and is \<^verbatim>\<open>Math.min(limit, 25)\<close>: the smaller of the two for a finite limit, never an
  error and never a value above 25. \<^verbatim>\<open>q\<close> and \<^verbatim>\<open>owner\<close> are forwarded when they are
  non-empty strings and left out when empty or absent; \<^verbatim>\<open>sort\<close>, \<^verbatim>\<open>offset\<close>,
  \<^verbatim>\<open>category\<close> and \<^verbatim>\<open>platform\<close> are forwarded whenever supplied, a single category
  or platform as a one-element array. The request goes to \<^verbatim>\<open>/projects\<close> with these
  parameters, and \<^verbatim>\<open>buildSearchParams\<close> leaves the limit as it is.
\<close>

theorem searchProjects_forwards:
  "map_of (searchProjects_params options) (js ''limit'')
     = map_option (\<lambda>l. PNumber (Math_min l (Finite 25))) (search_limit options)
   \<and> Math_min (Finite x) (Finite 25) = Finite (min x 25)
   \<and> map_of (searchProjects_params options) (js ''q'')
     = (case search_q options of
          None \<Rightarrow> None
        | Some v \<Rightarrow> if v \<noteq> [] then Some (PString v) else None)
   \<and> map_of (searchProjects_params options) (js ''owner'')
     = (case search_owner options of
          None \<Rightarrow> None
        | Some v \<Rightarrow> if v \<noteq> [] then Some (PString v) else None)
   \<and> map_of (searchProjects_params options) (js ''sort'')
     = map_option (\<lambda>x. PString (HangarProjectSort_string x)) (search_sort options)
   \<and> map_of (searchProjects_params options) (js ''offset'')
     = map_option PNumber (search_offset options)
   \<and> map_of (searchProjects_params options) (js ''category'')
     = map_option (\<lambda>c. PArray (case c of Single x \<Rightarrow> [HangarCategory_string x]
                                 | Many xs \<Rightarrow> map HangarCategory_string xs))
         (search_category options)
   \<and> map_of (searchProjects_params options) (js ''platform'')
     = map_option (\<lambda>c. PArray (case c of Single x \<Rightarrow> [HangarPlatform_string x]
                                 | Many xs \<Rightarrow> map HangarPlatform_string xs))
         (search_platform options)
   \<and> fst (searchProjects_request client options) = baseUrl client @ js ''/projects''
   \<and> searchParams (snd (searchProjects_request client options))
     = Some (buildSearchParams (searchProjects_params options))
   \<and> map_of (buildSearchParams (searchProjects_params options)) (js ''limit'')
     = map_option (\<lambda>l. PNumber (Math_min l (Finite 25))) (search_limit options)"
  by (simp only: params_limit params_q params_owner params_sort params_offset params_category
        params_platform Math_min_Finite map_of_buildSearchParams)
     (simp add: searchProjects_request_def makeRequest_options_def option.map_comp comp_def
        searchParam_value_def)

theorem searchProjects_forwards_witness:
  "map_of (searchProjects_params
      \<lparr> search_q = Some (js ''economy''), search_category = Some (Single ECONOMY),
        search_platform = None, search_owner = None, search_sort = None,
        search_limit = Some (Finite 100), search_offset = Some (Finite 0) \<rparr>) (js ''limit'')
     = Some (PNumber (Finite 25))
   \<and> map_of (searchProjects_params
      \<lparr> search_q = Some (js ''economy''), search_category = Some (Single ECONOMY),
        search_platform = None, search_owner = None, search_sort = None,
        search_limit = Some (Finite 100), search_offset = Some (Finite 0) \<rparr>) (js ''category'')
     = Some (PArray [js ''economy''])"
  using searchProjects_forwards [of
      "\<lparr> search_q = Some (js ''economy''), search_category = Some (Single ECONOMY),
        search_platform = None, search_owner = None, search_sort = None,
        search_limit = Some (Finite 100), search_offset = Some (Finite 0) \<rparr>" 100]
  by simp

text \<open>
  Claim C10 as stated forwards every supplied option of a call that has a limit.
  \<^verbatim>\<open>if (options.q)\<close> is a test of truthiness:
  \<^verbatim>\<open>searchProjects({ q: "", limit: 10 })\<close> sends the limit and no \<^verbatim>\<open>q\<close>.
\<close>

theorem searchProjects_drops_empty_q:
  "searchProjects_params
      \<lparr> search_q = Some (js ''''), search_category = None, search_platform = None,
        search_owner = None, search_sort = None, search_limit = Some (Finite 10),
        search_offset = None \<rparr>
     = [(js ''limit'', PNumber (Finite 10))]
   \<and> map_of (searchProjects_params
      \<lparr> search_q = Some (js ''''), search_category = None, search_platform = None,
        search_owner = None, search_sort = None, search_limit = Some (Finite 10),
        search_offset = None \<rparr>)
      (js ''q'') = None"
  by (simp add: searchProjects_params_def js_empty Math_min_def js_eq_iff)

subsection \<open>SpigetAPI.downloadResource\<close>

text \<open>
  Claim C9. When the metadata request for the resource answers a resource with
  \<^verbatim>\<open>external = true\<close>, \<^verbatim>\<open>downloadResource\<close> throws a \<^verbatim>\<open>SpigetError\<close> of kind
  EXTERNAL_FILE_DOWNLOAD whose details are the resource id and the resource's
  \<^verbatim>\<open>file.externalUrl\<close>; the only URL the call requests is the metadata URL, which is
  not the download URL.
\<close>

theorem downloadResource_external:
  assumes "get_json net (baseUrl client @ js ''/resources/'' @ Number_toString resourceId) = Inr resource"
    and "external resource"
  shows "downloadResource client net resourceId requested =
           (Inl (SpigetError Spiget_EXTERNAL_FILE_DOWNLOAD
                   (js ''Cannot download external resource '' @ Number_toString resourceId
                      @ js ''. Use externalUrl instead.'')
                   (SpigetExternal resourceId (externalUrl (resource_file resource)))),
            requested @ [baseUrl client @ js ''/resources/'' @ Number_toString resourceId])
         \<and> baseUrl client @ js ''/resources/'' @ Number_toString resourceId
             \<noteq> download_url client resourceId"
  using assms
  by (simp add: downloadResource_def getResource_def Spiget_makeRequest_def download_url_def
        js_Nil_iff)

theorem downloadResource_external_witness:
  "downloadResource (SpigetAPI_constructor None None)
      \<lparr> get_json = (\<lambda>url. Inr \<lparr> external = True,
                                resource_file = \<lparr> externalUrl = js ''https://example.org/plugin.jar'' \<rparr> \<rparr>),
        get_raw = (\<lambda>url. Inl TimeoutError) \<rparr> 2 []
     = (Inl (SpigetError Spiget_EXTERNAL_FILE_DOWNLOAD
               (js ''Cannot download external resource '' @ Number_toString 2
                  @ js ''. Use externalUrl instead.'')
               (SpigetExternal 2 (js ''https://example.org/plugin.jar''))),
        [baseUrl (SpigetAPI_constructor None None) @ js ''/resources/'' @ Number_toString 2])"
  using downloadResource_external [of
      "\<lparr> get_json = (\<lambda>url. Inr \<lparr> external = True,
                                resource_file = \<lparr> externalUrl = js ''https://example.org/plugin.jar'' \<rparr> \<rparr>),
        get_raw = (\<lambda>url. Inl TimeoutError) \<rparr>"
      "SpigetAPI_constructor None None" 2
      "\<lparr> external = True, resource_file = \<lparr> externalUrl = js ''https://example.org/plugin.jar'' \<rparr> \<rparr>"
      "[]"]
  by simp

subsection \<open>The retry delay\<close>

lemma isNaN_js_times: "isNaN (js_times x k) \<longleftrightarrow> isNaN x"
  by (cases x) simp_all

lemma calculateRetryDelay_hint:
  assumes "\<not> js_gt (Finite (real (Suc c))) (limit opts)"
    and "status r \<in> set (statusCodes opts)"
    and "status r \<in> set (afterStatusCodes opts)"
    and "retryAfter_header r = Some h" and "h \<noteq> []"
  shows "calculateRetryDelay env opts c (HTTPError r)
           = (Inr (spec_retry_wait env (maxRetryAfter opts) (Date_now env (Suc c)) h), Suc c)"
  using assms
  by (simp add: calculateRetryDelay_def spec_retry_wait_def Let_def isNaN_js_times
        split: option.split)

lemma calculateRetryDelay_413_no_hint:
  assumes "status r = 413"
    and "retryAfter_header r = None \<or> retryAfter_header r = Some []
           \<or> 413 \<notin> set (afterStatusCodes opts)"
  shows "calculateRetryDelay env opts c (HTTPError r) = (Inl (HTTPError r), Suc c)"
  using assms
  by (auto simp add: calculateRetryDelay_def Let_def split: option.split)

lemma calculateRetryDelay_empty_hint:
  assumes "\<not> js_gt (Finite (real (Suc c))) (limit opts)"
    and "status r \<in> set (statusCodes opts)"
    and "retryAfter_header r = Some []"
  shows "calculateRetryDelay env opts c (HTTPError r)
           = (if status r = 413 then Inl (HTTPError r)
              else Inr (Math_min (backoffLimit opts) (delay opts (Suc c))), Suc c)"
  using assms by (simp add: calculateRetryDelay_def Let_def)

text \<open>
  Claim C2, amended. For a failure that is retried (retries are left and the status is
  a retryable one) with a status among 413, 429 and 503, the set the library's requests
  run with, let \<open>h\<close> be the value of the first header present among \<^verbatim>\<open>Retry-After\<close>,
  \<^verbatim>\<open>RateLimit-Reset\<close>, \<^verbatim>\<open>X-RateLimit-Reset\<close> and \<^verbatim>\<open>X-Rate-Limit-Reset\<close>. When
  \<open>h\<close> is not empty, the delay computed is the one the specification words: seconds
  times 1000 when the value parses as a number, less the clock when that reaches the
  threshold date; the date's distance from the clock otherwise; then the configured
  maximum when the result is not below it. The retry loop sleeps that long, or
  2147483647 ms when the delay is larger, and then makes the next attempt. When \<open>h\<close>
  is empty the header is ignored: for 429 and 503 the delay is the ordinary backoff,
  \<^verbatim>\<open>Math.min(backoffLimit, delay(retryCount))\<close>, slept in the same way, and a 413 is
  thrown back without a retry.
\<close>

theorem retry_after_wait:
  assumes "status r \<in> {413, 429, 503}"
    and "afterStatusCodes opts = retryAfterStatusCodes"
    and "status r \<in> set (statusCodes opts)"
    and "\<not> js_gt (Finite (real (Suc c))) (limit opts)"
    and "retryAfter_header r = Some h"
  shows "(h \<noteq> [] \<longrightarrow>
            calculateRetryDelay env opts c (HTTPError r)
              = (Inr (spec_retry_wait env (maxRetryAfter opts) (Date_now env (Suc c)) h), Suc c)
            \<and> retry env opts c (Rejected (HTTPError r) # rest)
              = Sleep (Math_min (spec_retry_wait env (maxRetryAfter opts) (Date_now env (Suc c)) h)
                         (Finite maxSafeTimeout))
                  (retry env opts (Suc c) rest))
         \<and> (h = [] \<and> status r \<noteq> 413 \<longrightarrow>
            calculateRetryDelay env opts c (HTTPError r)
              = (Inr (Math_min (backoffLimit opts) (delay opts (Suc c))), Suc c)
            \<and> retry env opts c (Rejected (HTTPError r) # rest)
              = Sleep (Math_min (Math_min (backoffLimit opts) (delay opts (Suc c)))
                         (Finite maxSafeTimeout))
                  (retry env opts (Suc c) rest))
         \<and> (h = [] \<and> status r = 413 \<longrightarrow>
            calculateRetryDelay env opts c (HTTPError r) = (Inl (HTTPError r), Suc c)
            \<and> retry env opts c (Rejected (HTTPError r) # rest) = Thrown (HTTPError r))"
proof (intro conjI impI)
  assume ne: "h \<noteq> []"
  have "status r \<in> set (afterStatusCodes opts)"
    using assms(1,2) by (auto simp add: retryAfterStatusCodes_def)
  then show t: "calculateRetryDelay env opts c (HTTPError r)
           = (Inr (spec_retry_wait env (maxRetryAfter opts) (Date_now env (Suc c)) h), Suc c)"
    using assms(3-5) ne by (simp add: calculateRetryDelay_hint)
  show "retry env opts c (Rejected (HTTPError r) # rest)
              = Sleep (Math_min (spec_retry_wait env (maxRetryAfter opts) (Date_now env (Suc c)) h)
                         (Finite maxSafeTimeout))
                  (retry env opts (Suc c) rest)"
    using t by simp
next
  assume e: "h = [] \<and> status r \<noteq> 413"
  then have hd: "retryAfter_header r = Some []" using assms(5) by simp
  show t: "calculateRetryDelay env opts c (HTTPError r)
              = (Inr (Math_min (backoffLimit opts) (delay opts (Suc c))), Suc c)"
    using calculateRetryDelay_empty_hint [OF assms(4) assms(3) hd, of env] e by simp
  show "retry env opts c (Rejected (HTTPError r) # rest)
              = Sleep (Math_min (Math_min (backoffLimit opts) (delay opts (Suc c)))
                         (Finite maxSafeTimeout))
                  (retry env opts (Suc c) rest)"
    using t by simp
next
  assume e: "h = [] \<and> status r = 413"
  then have hd: "retryAfter_header r = Some []" using assms(5) by simp
  show t: "calculateRetryDelay env opts c (HTTPError r) = (Inl (HTTPError r), Suc c)"
    using calculateRetryDelay_empty_hint [OF assms(4) assms(3) hd, of env] e by simp
  show "retry env opts c (Rejected (HTTPError r) # rest) = Thrown (HTTPError r)"
    using t by simp
qed

theorem retry_after_wait_witness:
  "calculateRetryDelay sample_env defaultRetryOptions 0
      (HTTPError \<lparr> status = 503, headers = [(js ''retry-after'', js ''1'')] \<rparr>)
     = (Inr (Finite 1000), 1)
   \<and> retry sample_env defaultRetryOptions 0
      [Rejected (HTTPError \<lparr> status = 503, headers = [(js ''retry-after'', js ''1'')] \<rparr>),
       Resolved \<lparr> status = 200, headers = [] \<rparr>]
     = Sleep (Finite 1000) (Returned \<lparr> status = 200, headers = [] \<rparr>)
   \<and> calculateRetryDelay sample_env defaultRetryOptions 0
      (HTTPError \<lparr> status = 503, headers = [(js ''retry-after'', js '''')] \<rparr>)
     = (Inr (Finite 300), 1)"
proof -
  have opts: "afterStatusCodes defaultRetryOptions = retryAfterStatusCodes"
    "503 \<in> set (statusCodes defaultRetryOptions)"
    "\<not> js_gt (Finite (real (Suc 0))) (limit defaultRetryOptions)"
    by (simp_all add: defaultRetryOptions_def retryStatusCodes_def js_gt_def)
  have some: "retryAfter_header \<lparr> status = 503, headers = [(js ''retry-after'', js ''1'')] \<rparr>
                = Some (js ''1'')"
    by (simp add: retryAfter_header_def Headers_get_def nullish_def toLowerCase_def js_def
          unit_of_def)
  have empty: "retryAfter_header \<lparr> status = 503, headers = [(js ''retry-after'', js '''')] \<rparr>
                = Some []"
    by (simp add: retryAfter_header_def Headers_get_def nullish_def toLowerCase_def js_def
          unit_of_def)
  have ne: "js ''1'' \<noteq> []"
    by (simp add: js_Nil_iff)
  have wait: "spec_retry_wait sample_env (maxRetryAfter defaultRetryOptions)
                (Date_now sample_env (Suc 0)) (js ''1'') = Finite 1000"
    by (simp add: spec_retry_wait_def sample_env_def defaultRetryOptions_def js_ge_def js_eq_iff
          js_Nil_iff)
  have cap: "Math_min (Finite 1000) (Finite maxSafeTimeout) = Finite 1000"
    by (simp add: Math_min_def maxSafeTimeout_def)
  have backoff: "Math_min (backoffLimit defaultRetryOptions) (delay defaultRetryOptions (Suc 0))
                   = Finite 300"
    by (simp add: Math_min_def defaultRetryOptions_def)
  have st: "status \<lparr> status = 503, headers = [(js ''retry-after'', js ''1'')] \<rparr>
              \<in> {413, 429, 503}"
    "status \<lparr> status = 503, headers = [(js ''retry-after'', js '''')] \<rparr> \<in> {413, 429, 503}"
    "status \<lparr> status = 503, headers = [(js ''retry-after'', js '''')] \<rparr> \<noteq> 413"
    by simp_all
  have in1: "status \<lparr> status = 503, headers = [(js ''retry-after'', js ''1'')] \<rparr>
               \<in> set (statusCodes defaultRetryOptions)"
    and in2: "status \<lparr> status = 503, headers = [(js ''retry-after'', js '''')] \<rparr>
               \<in> set (statusCodes defaultRetryOptions)"
    using opts(2) by simp_all
  have a: "calculateRetryDelay sample_env defaultRetryOptions 0
             (HTTPError \<lparr> status = 503, headers = [(js ''retry-after'', js ''1'')] \<rparr>)
           = (Inr (spec_retry_wait sample_env (maxRetryAfter defaultRetryOptions)
                     (Date_now sample_env (Suc 0)) (js ''1'')), Suc 0)
         \<and> retry sample_env defaultRetryOptions 0
             [Rejected (HTTPError \<lparr> status = 503, headers = [(js ''retry-after'', js ''1'')] \<rparr>),
              Resolved \<lparr> status = 200, headers = [] \<rparr>]
           = Sleep (Math_min (spec_retry_wait sample_env (maxRetryAfter defaultRetryOptions)
                                (Date_now sample_env (Suc 0)) (js ''1''))
                      (Finite maxSafeTimeout))
               (retry sample_env defaultRetryOptions (Suc 0)
                  [Resolved \<lparr> status = 200, headers = [] \<rparr>])"
    using retry_after_wait [OF st(1) opts(1) in1 opts(3) some, of sample_env
        "[Resolved \<lparr> status = 200, headers = [] \<rparr>]"] ne
    by blast
  have b: "calculateRetryDelay sample_env defaultRetryOptions 0
             (HTTPError \<lparr> status = 503, headers = [(js ''retry-after'', js '''')] \<rparr>)
           = (Inr (Math_min (backoffLimit defaultRetryOptions)
                     (delay defaultRetryOptions (Suc 0))), Suc 0)"
    using retry_after_wait [OF st(2) opts(1) in2 opts(3) empty, of sample_env "[]"] st(3)
    by blast
  have a1: "calculateRetryDelay sample_env defaultRetryOptions 0
              (HTTPError \<lparr> status = 503, headers = [(js ''retry-after'', js ''1'')] \<rparr>)
            = (Inr (Finite 1000), 1)"
    using a [THEN conjunct1] by (simp only: wait One_nat_def)
  have a2: "retry sample_env defaultRetryOptions 0
              [Rejected (HTTPError \<lparr> status = 503, headers = [(js ''retry-after'', js ''1'')] \<rparr>),
               Resolved \<lparr> status = 200, headers = [] \<rparr>]
            = Sleep (Finite 1000) (Returned \<lparr> status = 200, headers = [] \<rparr>)"
    using a [THEN conjunct2] by (simp only: wait cap retry.simps)
  have b1: "calculateRetryDelay sample_env defaultRetryOptions 0
              (HTTPError \<lparr> status = 503, headers = [(js ''retry-after'', js '''')] \<rparr>)
            = (Inr (Finite 300), 1)"
    using b by (simp only: backoff One_nat_def)
  show ?thesis
    using a1 a2 b1 by (intro conjI)
qed

text \<open>
  Claim C2 as stated covers every response that carries one of the headers. A header
  with an empty value is carried and ignored (\<^verbatim>\<open>retryAfter && ...\<close>): for a 429 with
  \<^verbatim>\<open>Retry-After:\<close> and nothing after it the code falls back to the backoff, 300 ms
  on the first retry, where the claim's rule gives \<^verbatim>\<open>Number("") * 1000\<close>, that is 0.
\<close>

theorem retry_after_empty_value:
  "calculateRetryDelay sample_env defaultRetryOptions 0
      (HTTPError \<lparr> status = 429, headers = [(js ''retry-after'', js '''')] \<rparr>)
     = (Inr (Finite 300), 1)
   \<and> retryAfter_header \<lparr> status = 429, headers = [(js ''retry-after'', js '''')] \<rparr>
     = Some (js '''')
   \<and> spec_retry_wait sample_env (maxRetryAfter defaultRetryOptions) (Date_now sample_env 1)
       (js '''') = Finite 0"
  by (simp add: calculateRetryDelay_def defaultRetryOptions_def retryAfterStatusCodes_def
        retryStatusCodes_def js_gt_def retryAfter_header_def Headers_get_def toLowerCase_def
        nullish_def js_eq_iff js_Nil_iff spec_retry_wait_def sample_env_def js_ge_def
        Math_min_def js_def unit_of_def)

text \<open>
  Claim C1, amended. A failure with status 413 is thrown back by the delay computation,
  and so propagates at once from the retry loop and from the request, whenever its
  response has no retry hint (none of the four headers, or an empty value in the first
  one present) or 413 is not among \<^verbatim>\<open>afterStatusCodes\<close>. With a non-empty hint, 413
  among \<^verbatim>\<open>afterStatusCodes\<close> and \<^verbatim>\<open>statusCodes\<close> (as by default) and retries left,
  it is retried after the wait the hint gives.
\<close>

theorem payload_too_large_retry:
  assumes "status r = 413"
  shows "(retryAfter_header r = None \<or> retryAfter_header r = Some []
            \<or> 413 \<notin> set (afterStatusCodes opts) \<longrightarrow>
          calculateRetryDelay env opts c (HTTPError r) = (Inl (HTTPError r), Suc c)
          \<and> retry env opts c (Rejected (HTTPError r) # rest) = Thrown (HTTPError r)
          \<and> Ky_create env opts m (Rejected (HTTPError r) # rest) = Thrown (HTTPError r))
       \<and> (\<forall>h. retryAfter_header r = Some h \<and> h \<noteq> [] \<and> 413 \<in> set (afterStatusCodes opts)
              \<and> 413 \<in> set (statusCodes opts)
              \<and> \<not> js_gt (Finite (real (Suc c))) (limit opts) \<longrightarrow>
          calculateRetryDelay env opts c (HTTPError r)
            = (Inr (spec_retry_wait env (maxRetryAfter opts) (Date_now env (Suc c)) h), Suc c)
          \<and> retry env opts c (Rejected (HTTPError r) # rest)
            = Sleep (Math_min (spec_retry_wait env (maxRetryAfter opts) (Date_now env (Suc c)) h)
                       (Finite maxSafeTimeout))
                (retry env opts (Suc c) rest))"
proof (intro conjI impI allI)
  assume a: "retryAfter_header r = None \<or> retryAfter_header r = Some []
            \<or> 413 \<notin> set (afterStatusCodes opts)"
  show t: "calculateRetryDelay env opts c (HTTPError r) = (Inl (HTTPError r), Suc c)"
    using assms a by (rule calculateRetryDelay_413_no_hint)
  show "retry env opts c (Rejected (HTTPError r) # rest) = Thrown (HTTPError r)"
    using t by simp
  show "Ky_create env opts m (Rejected (HTTPError r) # rest) = Thrown (HTTPError r)"
    using calculateRetryDelay_413_no_hint [OF assms a, of env 0] by (simp add: Ky_create_def)
next
  fix h
  assume b: "retryAfter_header r = Some h \<and> h \<noteq> [] \<and> 413 \<in> set (afterStatusCodes opts)
              \<and> 413 \<in> set (statusCodes opts)
              \<and> \<not> js_gt (Finite (real (Suc c))) (limit opts)"
  show t: "calculateRetryDelay env opts c (HTTPError r)
            = (Inr (spec_retry_wait env (maxRetryAfter opts) (Date_now env (Suc c)) h), Suc c)"
    using assms b by (simp add: calculateRetryDelay_hint)
  show "retry env opts c (Rejected (HTTPError r) # rest)
            = Sleep (Math_min (spec_retry_wait env (maxRetryAfter opts) (Date_now env (Suc c)) h)
                       (Finite maxSafeTimeout))
                (retry env opts (Suc c) rest)"
    using t by simp
qed

theorem payload_too_large_retry_witness:
  "Ky_create sample_env defaultRetryOptions (js ''GET'')
      [Rejected (HTTPError \<lparr> status = 413, headers = [] \<rparr>),
       Resolved \<lparr> status = 200, headers = [] \<rparr>]
     = Thrown (HTTPError \<lparr> status = 413, headers = [] \<rparr>)
   \<and> calculateRetryDelay sample_env defaultRetryOptions 0
      (HTTPError \<lparr> status = 413, headers = [(js ''retry-after'', js ''1'')] \<rparr>)
     = (Inr (Finite 1000), 1)"
proof -
  have none: "retryAfter_header \<lparr> status = 413, headers = [] \<rparr> = None"
    by (simp add: retryAfter_header_def Headers_get_def nullish_def)
  have some: "retryAfter_header \<lparr> status = 413, headers = [(js ''retry-after'', js ''1'')] \<rparr>
                = Some (js ''1'')"
    by (simp add: retryAfter_header_def Headers_get_def nullish_def toLowerCase_def js_def
          unit_of_def)
  have opts: "413 \<in> set (afterStatusCodes defaultRetryOptions)"
    "413 \<in> set (statusCodes defaultRetryOptions)"
    "\<not> js_gt (Finite (real (Suc 0))) (limit defaultRetryOptions)"
    by (simp_all add: defaultRetryOptions_def retryAfterStatusCodes_def retryStatusCodes_def
          js_gt_def)
  have wait: "spec_retry_wait sample_env (maxRetryAfter defaultRetryOptions)
                (Date_now sample_env (Suc 0)) (js ''1'') = Finite 1000"
    by (simp add: spec_retry_wait_def sample_env_def defaultRetryOptions_def js_ge_def js_eq_iff
          js_Nil_iff)
  have first: "Ky_create sample_env defaultRetryOptions (js ''GET'')
      [Rejected (HTTPError \<lparr> status = 413, headers = [] \<rparr>),
       Resolved \<lparr> status = 200, headers = [] \<rparr>]
     = Thrown (HTTPError \<lparr> status = 413, headers = [] \<rparr>)"
    using payload_too_large_retry [of "\<lparr> status = 413, headers = [] \<rparr>" defaultRetryOptions
      sample_env 0 "[Resolved \<lparr> status = 200, headers = [] \<rparr>]" "js ''GET''"] none
    by simp
  have st: "status \<lparr> status = 413, headers = [(js ''retry-after'', js ''1'')] \<rparr> = 413"
    by simp
  have ne: "js ''1'' \<noteq> []"
    by (simp add: js_Nil_iff)
  have "calculateRetryDelay sample_env defaultRetryOptions 0
      (HTTPError \<lparr> status = 413, headers = [(js ''retry-after'', js ''1'')] \<rparr>)
     = (Inr (spec_retry_wait sample_env (maxRetryAfter defaultRetryOptions)
               (Date_now sample_env (Suc 0)) (js ''1'')), Suc 0)"
    using payload_too_large_retry [OF st, of defaultRetryOptions sample_env 0 "[]" "js ''GET''"]
      some opts ne
    by blast
  then have second: "calculateRetryDelay sample_env defaultRetryOptions 0
      (HTTPError \<lparr> status = 413, headers = [(js ''retry-after'', js ''1'')] \<rparr>)
     = (Inr (Finite 1000), 1)"
    by (simp only: wait One_nat_def)
  show ?thesis using first second by simp
qed

text \<open>
  Claim C1 as stated never retries a 413, whatever the headers. With the default
  options a GET answered by 413 with \<^verbatim>\<open>Retry-After: 1\<close> sleeps 1000 ms and is sent
  again; the second answer is the one returned.
\<close>

theorem payload_too_large_retried_on_hint:
  "Ky_create sample_env defaultRetryOptions (js ''GET'')
      [Rejected (HTTPError \<lparr> status = 413, headers = [(js ''retry-after'', js ''1'')] \<rparr>),
       Resolved \<lparr> status = 200, headers = [] \<rparr>]
     = Sleep (Finite 1000) (Returned \<lparr> status = 200, headers = [] \<rparr>)"
  by (simp add: Ky_create_def calculateRetryDelay_def defaultRetryOptions_def
        retryAfterStatusCodes_def retryStatusCodes_def retryMethods_def js_gt_def
        retryAfter_header_def Headers_get_def toLowerCase_def nullish_def js_eq_iff js_Nil_iff
        sample_env_def js_ge_def Math_min_def maxSafeTimeout_def js_def unit_of_def)

subsection \<open>JSON text read back\<close>

text \<open>
  Every code unit is written by \<open>quote_unit\<close> in a form the lexer reads back as that
  code unit: the \<^verbatim>\<open>\uXXXX\<close> escape by its four hexadecimal digits, a surrogate of a
  pair as itself.
\<close>

lemma unat_of_nat_16: "k < 65536 \<Longrightarrow> unat (of_nat k :: 16 word) = k"
  by (simp add: unat_of_nat)

lemma unat_hex_digit: "d < 16 \<Longrightarrow> unat (hex_digit d) = (if d < 10 then 48 + d else 87 + d)"
  unfolding hex_digit_def by (simp only: unat_of_nat_16 split: if_split) simp

lemma hex_value_hex_digit: "d < 16 \<Longrightarrow> hex_value (hex_digit d) = Some d"
  by (simp add: hex_value_def unat_hex_digit Let_def)

lemma hex_digits_sum:
  "((n div 4096 * 16 + n div 256 mod 16) * 16 + n div 16 mod 16) * 16 + n mod 16 = (n :: nat)"
proof -
  have a: "n div 256 = n div 16 div 16" "n div 4096 = n div 256 div 16"
    by (simp_all add: div_mult2_eq)
  have "n div 4096 * 16 + n div 256 mod 16 = n div 256"
    unfolding a(2) by (rule div_mult_mod_eq)
  moreover have "n div 256 * 16 + n div 16 mod 16 = n div 16"
    unfolding a(1) by (rule div_mult_mod_eq)
  moreover have "n div 16 * 16 + n mod 16 = n"
    by (rule div_mult_mod_eq)
  ultimately show ?thesis by simp
qed

lemma hex4_digits:
  assumes "n < 65536"
  shows "hex4 (hex_digit (n div 4096)) (hex_digit (n div 256 mod 16))
           (hex_digit (n div 16 mod 16)) (hex_digit (n mod 16)) = Some (of_nat n)"
proof -
  have "n div 4096 < 16" using assms by simp
  then have v1: "hex_value (hex_digit (n div 4096)) = Some (n div 4096)"
    by (rule hex_value_hex_digit)
  have v2: "hex_value (hex_digit (n div 256 mod 16)) = Some (n div 256 mod 16)"
    by (rule hex_value_hex_digit) simp
  have v3: "hex_value (hex_digit (n div 16 mod 16)) = Some (n div 16 mod 16)"
    by (rule hex_value_hex_digit) simp
  have v4: "hex_value (hex_digit (n mod 16)) = Some (n mod 16)"
    by (rule hex_value_hex_digit) simp
  show ?thesis
    unfolding hex4_def v1 v2 v3 v4 by (simp only: prod.case option.case hex_digits_sum)
qed

lemma unat_lt_65536: "unat (c :: 16 word) < 65536"
  using unsigned_less [of c] by simp

lemma lex_string_UnicodeEscape:
  "lex_string acc (UnicodeEscape c @ rest) = lex_string (c # acc) rest"
  using hex4_digits [OF unat_lt_65536 [of c]]
  by (simp add: UnicodeEscape_def Let_def)

lemma surrogate_is_plain:
  assumes "is_high_surrogate c \<or> is_low_surrogate c"
  shows "c \<noteq> 0x22" and "c \<noteq> 0x5C" and "\<not> c < 0x20"
  using assms
  by (auto simp add: is_high_surrogate_def is_low_surrogate_def word_le_nat_alt word_less_nat_alt)

lemma lex_string_surrogate:
  "is_high_surrogate c \<or> is_low_surrogate c \<Longrightarrow>
     lex_string acc (c # rest) = lex_string (c # acc) rest"
  by (simp add: surrogate_is_plain)

lemma lex_string_quote_unit:
  "lex_string acc (quote_unit c @ rest) = lex_string (c # acc) rest"
  by (simp add: quote_unit_def lex_string_UnicodeEscape)

lemma lex_string_quote_units:
  "lex_string acc (quote_units s @ rest) = lex_string (rev s @ acc) rest"
proof (induction s arbitrary: acc rule: quote_units.induct)
  case 1
  show ?case by simp
next
  case (2 c)
  show ?case by (simp add: lex_string_quote_unit)
next
  case (3 c d cs)
  show ?case
  proof (cases "is_high_surrogate c \<and> is_low_surrogate d")
    case True
    then have hc: "is_high_surrogate c \<or> is_low_surrogate c"
      and hd: "is_high_surrogate d \<or> is_low_surrogate d"
      by simp_all
    have q: "quote_units (c # d # cs) = c # d # quote_units cs"
      using True by simp
    have "lex_string acc (quote_units (c # d # cs) @ rest)
            = lex_string (d # c # acc) (quote_units cs @ rest)"
      unfolding q
      by (simp only: append_Cons lex_string_surrogate [OF hc] lex_string_surrogate [OF hd])
    also have "\<dots> = lex_string (rev cs @ d # c # acc) rest"
      using True by (rule "3.IH"(1))
    finally show ?thesis by simp
  next
    case False
    then have q: "quote_units (c # d # cs) = quote_unit c @ quote_units (d # cs)"
      by auto
    have "lex_string acc (quote_units (c # d # cs) @ rest)
            = lex_string (c # acc) (quote_units (d # cs) @ rest)"
      unfolding q by (simp only: append_assoc lex_string_quote_unit)
    also have "\<dots> = lex_string (rev (d # cs) @ c # acc) rest"
      using False by (rule "3.IH"(2))
    finally show ?thesis by simp
  qed
qed

lemma lex_QuoteJSONString:
  "lex (QuoteJSONString s @ rest) = map_option (Cons (StringLit s)) (lex rest)"
  by (simp add: QuoteJSONString_def lex_string_quote_units)

text \<open>The texts of arrays lex to their tokens, and the tokens parse to the arrays.\<close>

lemma lex_more_strings:
  "lex (concat (map (\<lambda>y. 0x2C # QuoteJSONString y) ys) @ rest)
     = map_option (\<lambda>ts. more_strings ys @ ts) (lex rest)"
proof (induction ys)
  case Nil
  show ?case by (simp add: more_strings_def option.map_ident)
next
  case (Cons y ys)
  have "lex (concat (map (\<lambda>y. 0x2C # QuoteJSONString y) (y # ys)) @ rest)
          = map_option (Cons Comma)
              (lex (QuoteJSONString y @ concat (map (\<lambda>y. 0x2C # QuoteJSONString y) ys) @ rest))"
    by simp
  also have "\<dots> = map_option (Cons Comma) (map_option (Cons (StringLit y))
                       (map_option (\<lambda>ts. more_strings ys @ ts) (lex rest)))"
    by (simp only: lex_QuoteJSONString Cons.IH)
  also have "\<dots> = map_option (\<lambda>ts. more_strings (y # ys) @ ts) (lex rest)"
    by (cases "lex rest") (simp_all add: more_strings_def)
  finally show ?case .
qed

lemma join_commas_Cons:
  "join_commas (x # ys) = x @ concat (map (\<lambda>y. 0x2C # y) ys)"
  by (induction ys arbitrary: x) simp_all

lemma lex_stringify_strings:
  "lex (JSON_stringify_strings xs @ rest) = map_option (\<lambda>ts. array_tokens xs @ ts) (lex rest)"
proof (cases xs)
  case Nil
  then show ?thesis
    by (cases "lex rest") (simp_all add: JSON_stringify_strings_def)
next
  case (Cons x ys)
  have "JSON_stringify_strings xs @ rest
          = 0x5B # QuoteJSONString x
              @ concat (map (\<lambda>y. 0x2C # QuoteJSONString y) ys) @ 0x5D # rest"
    unfolding Cons JSON_stringify_strings_def
    by (simp add: join_commas_Cons map_map comp_def del: join_commas.simps)
  then have "lex (JSON_stringify_strings xs @ rest)
          = map_option (Cons LBracket) (map_option (Cons (StringLit x))
              (map_option (\<lambda>ts. more_strings ys @ ts) (map_option (Cons RBracket) (lex rest))))"
    by (simp add: lex_QuoteJSONString lex_more_strings)
  then show ?thesis
    unfolding Cons by (cases "lex rest") simp_all
qed

lemma lex_more_arrays:
  "lex (concat (map (\<lambda>ys. 0x2C # JSON_stringify_strings ys) yss) @ rest)
     = map_option (\<lambda>ts. more_arrays yss @ ts) (lex rest)"
proof (induction yss)
  case Nil
  show ?case by (simp add: more_arrays_def option.map_ident)
next
  case (Cons ys yss)
  have "lex (concat (map (\<lambda>ys. 0x2C # JSON_stringify_strings ys) (ys # yss)) @ rest)
          = map_option (Cons Comma)
              (lex (JSON_stringify_strings ys
                      @ concat (map (\<lambda>ys. 0x2C # JSON_stringify_strings ys) yss) @ rest))"
    by simp
  also have "\<dots> = map_option (Cons Comma) (map_option (\<lambda>ts. array_tokens ys @ ts)
                       (map_option (\<lambda>ts. more_arrays yss @ ts) (lex rest)))"
    by (simp only: lex_stringify_strings Cons.IH)
  also have "\<dots> = map_option (\<lambda>ts. more_arrays (ys # yss) @ ts) (lex rest)"
    by (cases "lex rest") (simp_all add: more_arrays_def)
  finally show ?case .
qed

lemma lex_stringify_arrays:
  "lex (JSON_stringify_arrays xss) = Some (arrays_tokens xss)"
proof (cases xss)
  case Nil
  then show ?thesis by (simp add: JSON_stringify_arrays_def)
next
  case (Cons xs yss)
  have "JSON_stringify_arrays xss
          = 0x5B # JSON_stringify_strings xs
              @ concat (map (\<lambda>ys. 0x2C # JSON_stringify_strings ys) yss) @ [0x5D]"
    unfolding Cons JSON_stringify_arrays_def
    by (simp add: join_commas_Cons map_map comp_def del: join_commas.simps)
  then have "lex (JSON_stringify_arrays xss)
          = map_option (Cons LBracket) (map_option (\<lambda>ts. array_tokens xs @ ts)
              (map_option (\<lambda>ts. more_arrays yss @ ts) (lex [0x5D])))"
    by (simp add: lex_stringify_strings lex_more_arrays)
  then show ?thesis
    unfolding Cons by simp
qed

lemma parse_strings_tail_more:
  "parse_strings_tail (more_strings ys @ RBracket # ts) = Some (ys, ts)"
  by (induction ys) (simp_all add: more_strings_def)

lemma parse_strings_array_tokens:
  "parse_strings (array_tokens xs @ ts) = Some (xs, ts)"
  by (cases xs) (simp_all add: parse_strings_tail_more)

lemma length_more_arrays: "length yss \<le> length (more_arrays yss @ ts)"
  by (induction yss) (simp_all add: more_arrays_def)

lemma parse_arrays_tail_more:
  "length yss \<le> fuel \<Longrightarrow>
     parse_arrays_tail fuel (more_arrays yss @ RBracket # ts) = Some (yss, ts)"
proof (induction yss arbitrary: fuel)
  case Nil
  show ?case by (simp add: more_arrays_def)
next
  case (Cons ys yss)
  then obtain fuel' where f: "fuel = Suc fuel'" and l: "length yss \<le> fuel'"
    by (cases fuel) simp_all
  have "more_arrays (ys # yss) @ RBracket # ts
          = Comma # array_tokens ys @ more_arrays yss @ RBracket # ts"
    by (simp add: more_arrays_def)
  then show ?case
    unfolding f by (simp add: parse_strings_array_tokens Cons.IH [OF l])
qed

lemma parse_arrays_tokens: "parse_arrays (arrays_tokens xss) = Some (xss, [])"
proof (cases xss)
  case Nil
  then show ?thesis by (simp add: parse_arrays_def)
next
  case (Cons xs yss)
  have t: "arrays_tokens xss = LBracket # array_tokens xs @ more_arrays yss @ [RBracket]"
    unfolding Cons by simp
  have n: "array_tokens xs @ more_arrays yss @ [RBracket] \<noteq> RBracket # r" for r
    by (cases xs) simp_all
  have p: "parse_strings (array_tokens xs @ more_arrays yss @ [RBracket])
             = Some (xs, more_arrays yss @ [RBracket])"
    by (rule parse_strings_array_tokens)
  have q: "parse_arrays_tail (length (more_arrays yss @ [RBracket])) (more_arrays yss @ [RBracket])
             = Some (yss, [])"
    by (rule parse_arrays_tail_more) (rule length_more_arrays)
  show ?thesis
    unfolding t parse_arrays_def using n p q
    by (cases xs) (simp_all add: Cons)
qed

lemma JSON_parse_stringify_arrays:
  "JSON_parse_arrays (JSON_stringify_arrays xss) = Some xss"
  by (simp add: JSON_parse_arrays_def lex_stringify_arrays parse_arrays_tokens)


subsection \<open>Facets on the wire\<close>

lemma js_append: "js a @ js b = js (a @ b)"
  by (simp add: js_def)

lemma groups_addGroups:
  "\<forall>g\<in>set gs. \<not> Group_isEmpty g \<Longrightarrow> groups (addGroups b gs) = groups b @ gs"
  unfolding addGroups_def
  by (induction gs arbitrary: b) (simp_all add: addGroup_def)

lemma build_addGroups:
  assumes "gs \<noteq> []" and "\<forall>g\<in>set gs. \<not> Group_isEmpty g"
  shows "build (addGroups Builder_new gs) = JSON_stringify_arrays (map Group_toArray gs)"
  using assms(1) groups_addGroups [OF assms(2), of Builder_new]
  by (simp add: build_def Builder_new_def)

text \<open>
  Claim C5. For groups \<open>G\<^sub>1, \<dots>, G\<^sub>n\<close>, at least one and none of them empty, added to
  a new builder (with \<^verbatim>\<open>addGroups\<close> or one \<^verbatim>\<open>addGroup\<close> after the other),
  \<^verbatim>\<open>build()\<close> returns a text that \<^verbatim>\<open>JSON.parse\<close> reads as an array of \<open>n\<close> arrays,
  the \<open>i\<close>-th holding the \<^verbatim>\<open>toString()\<close> forms of the facets of \<open>G\<^sub>i\<close> in their
  order.
\<close>

theorem build_parses_back:
  assumes "gs \<noteq> []" and "\<forall>g\<in>set gs. \<not> Group_isEmpty g"
  shows "JSON_parse_arrays (build (addGroups Builder_new gs))
           = Some (map (\<lambda>g. map Facet_toString (facets g)) gs)
         \<and> JSON_parse_arrays (build (foldl addGroup Builder_new gs))
           = Some (map (\<lambda>g. map Facet_toString (facets g)) gs)
         \<and> length (map (\<lambda>g. map Facet_toString (facets g)) gs) = length gs"
proof -
  have "JSON_parse_arrays (build (addGroups Builder_new gs)) = Some (map Group_toArray gs)"
    by (simp only: build_addGroups [OF assms] JSON_parse_stringify_arrays)
  moreover have "map Group_toArray gs = map (\<lambda>g. map Facet_toString (facets g)) gs"
    by (simp add: Group_toArray_def)
  ultimately show ?thesis by (simp add: addGroups_def)
qed

lemma Group_versions_facets:
  "facets (Group_versions vs) = map Facet_versions vs"
proof -
  have "facets (foldl (\<lambda>g v. Group_addFacet g (Facet_versions v)) g0 vs)
          = facets g0 @ map Facet_versions vs" for g0
    by (induction vs arbitrary: g0) (simp_all add: Group_addFacet_def)
  then show ?thesis by (simp add: Group_versions_def Group_new_def)
qed

theorem build_parses_back_witness:
  "JSON_parse_arrays
     (build (addGroups Builder_new [Group_versions [js ''1.20.1'', js ''1.19.4'']]))
     = Some [[js ''versions:1.20.1'', js ''versions:1.19.4'']]"
  using build_parses_back [of "[Group_versions [js ''1.20.1'', js ''1.19.4'']]"]
  by (simp add: Group_isEmpty_def Group_versions_facets Facet_versions_def js_append)

text \<open>
  Claim C4. For a non-empty list of facets, \<^verbatim>\<open>processFacets\<close> returns the same text,
  the JSON of the one-group array of the facets' strings, for the flat array of the
  facets, for a group of them, for a new builder to which that group was added, and
  for that text passed as a string; and every group holding the facets gives what a
  new builder holding only that group gives.
\<close>

theorem processFacets_shapes:
  assumes "fs \<noteq> []"
  shows "processFacets (FacetsArray fs) = JSON_stringify_arrays [map Facet_toString fs]
         \<and> processFacets (FacetsGroup (Group_new fs)) = JSON_stringify_arrays [map Facet_toString fs]
         \<and> processFacets (FacetsBuilder (addGroup Builder_new (Group_new fs)))
             = JSON_stringify_arrays [map Facet_toString fs]
         \<and> processFacets (FacetsString (JSON_stringify_arrays [map Facet_toString fs]))
             = JSON_stringify_arrays [map Facet_toString fs]
         \<and> (\<forall>g. facets g = fs \<longrightarrow>
               processFacets (FacetsGroup g) = processFacets (FacetsBuilder (addGroup Builder_new g)))"
  using assms
  by (simp add: Group_new_def Group_toArray_def addGroup_def Group_isEmpty_def Builder_new_def
        build_def)

theorem processFacets_shapes_witness:
  "processFacets (FacetsArray [Facet_versions (js ''1.20.1'')])
     = JSON_stringify_arrays [[js ''versions:1.20.1'']]
   \<and> processFacets (FacetsGroup (Group_versions [js ''1.20.1'']))
     = processFacets (FacetsBuilder (addGroup Builder_new (Group_versions [js ''1.20.1''])))"
  using processFacets_shapes [of "[Facet_versions (js ''1.20.1'')]"]
  by (simp add: Group_versions_facets Facet_versions_def js_append)

text \<open>
  The shapes differ on the empty list, which the claim leaves out: an empty group or
  array is written \<^verbatim>\<open>[[]]\<close>, while the builder, which drops the empty group, writes
  the empty string.
\<close>

lemma processFacets_empty_group:
  "processFacets (FacetsGroup (Group_new [])) = js ''[[]]''
   \<and> processFacets (FacetsArray []) = js ''[[]]''
   \<and> processFacets (FacetsBuilder (addGroup Builder_new (Group_new []))) = js ''''"
  by (simp add: Group_new_def Group_toArray_def addGroup_def Group_isEmpty_def Builder_new_def
        build_def JSON_stringify_arrays_def JSON_stringify_strings_def js_def unit_of_def)

end
